theory Spec2Isabelle
  imports Complex_Main
begin

section \<open>Storage layout of a contract: data model\<close>

text \<open>
  The numbers of the source are JavaScript numbers, that is doubles. Slots, counts, byte
  offsets and byte sizes are modelled as integers (\<^typ>\<open>int\<close>): they stand for the
  integers that a double holds exactly and prints digit by digit, those below \<open>2^53\<close> in
  absolute value. Larger integers and fractions in these positions are outside the model.

  Offsets and sizes need more. The size table of the layout calculator is an object
  literal, and looking a type name up in it also finds what every object inherits
  (\<open>toString\<close>, \<open>constructor\<close>, ...): then the size is a function, adding it to the cursor
  gives a string, and from there on the offsets are strings. A value in such a position is
  a number (\<open>Num\<close>), an object or function (\<open>Obj t\<close>, with \<open>t\<close> the text that string
  conversion gives for it), or a string (\<open>Str\<close>). A string only arises when something is
  added to an object or to such a string, so it always holds the text of an object and is
  the text of no number: converted to a number it is \<open>NaN\<close>.
\<close>

datatype jsval = Num int | Str string | Obj string

text \<open>
  Numbers that come out of a division, a subtraction or \<open>Math.max\<close>. A JavaScript
  division by zero raises nothing: it yields an infinity, or \<open>NaN\<close> for \<open>0 / 0\<close>, and
  these values propagate through the arithmetic that follows. A finite value is the
  rational that the double stands for; the sign of a zero is not kept.
\<close>

datatype jsnum = Finite rat | PosInfinity | NegInfinity | NaN

datatype Visibility = Public | Private | Internal | External

text \<open>\<open>StateVariable\<close> of \<open>core/parser/types.ts\<close>.\<close>

record StateVariable =
  name_sv :: string
  typeName :: string
  visibility :: Visibility
  isConstant :: bool
  isImmutable :: bool
  initialValue :: "string option"

text \<open>
  \<open>ContractAST\<close> of \<open>core/parser/types.ts\<close>. The layout calculator reads the name and the
  declared variables only; the remaining fields (functions, events, modifiers, flags) live
  in the record's extension.
\<close>

record ContractAST =
  name_c :: string
  baseContracts :: "string list"
  stateVariables :: "StateVariable list"

text \<open>\<open>StorageVariable\<close> and \<open>SlotMapping\<close> of \<open>types/slot-mapping.ts\<close>. The field
  \<open>packed\<close> is optional in the source.\<close>

record StorageVariable =
  name :: string
  type :: string
  slot :: int
  offset :: jsval
  size_v :: jsval
  packed :: "bool option"
  isStateVariable :: bool

record SlotMapping =
  contractName :: string
  variables :: "StorageVariable list"
  totalSlots :: int
  packedSlots :: "int list"

section \<open>JavaScript containers, strings and operators\<close>

text \<open>
  A \<open>Map\<close> keeps its keys in the order of their first insertion; setting a key that is
  present replaces the value in place. It is modelled as an association list with
  distinct keys.
\<close>

fun map_set :: "'k \<Rightarrow> 'v \<Rightarrow> ('k \<times> 'v) list \<Rightarrow> ('k \<times> 'v) list" where
  "map_set k v [] = [(k, v)]"
| "map_set k v (e # m) = (if fst e = k then (k, v) # m else e # map_set k v m)"

definition map_get :: "('k \<times> 'v) list \<Rightarrow> 'k \<Rightarrow> 'v option" where
  "map_get m k = map_of m k"

definition map_has :: "('k \<times> 'v) list \<Rightarrow> 'k \<Rightarrow> bool" where
  "map_has m k = (map_of m k \<noteq> None)"

text \<open>\<open>new Map(entries)\<close>: the entries are set one after the other.\<close>

definition new_Map :: "('k \<times> 'v) list \<Rightarrow> ('k \<times> 'v) list" where
  "new_Map entries = foldl (\<lambda>m e. map_set (fst e) (snd e) m) [] entries"

text \<open>\<open>new Set(xs)\<close>: the elements in the order of their first occurrence.\<close>

definition new_Set :: "'a list \<Rightarrow> 'a list" where
  "new_Set xs = foldl (\<lambda>s x. if x \<in> set s then s else s @ [x]) [] xs"

text \<open>\<open>String.prototype.includes\<close>: the second string occurs in the first.\<close>

fun starts_with :: "string \<Rightarrow> string \<Rightarrow> bool" where
  "starts_with s [] = True"
| "starts_with [] (c # cs) = False"
| "starts_with (d # ds) (c # cs) = (d = c \<and> starts_with ds cs)"

fun includes_str :: "string \<Rightarrow> string \<Rightarrow> bool" where
  "includes_str [] sub = (sub = [])"
| "includes_str (d # ds) sub = (starts_with (d # ds) sub \<or> includes_str ds sub)"

text \<open>
  Numbers inside strings: the decimal digits of an integer, with a minus sign for a
  negative one. (The source prints an integer this way up to \<open>10^21\<close>, which covers the
  integers of the model.)
\<close>

function string_of_nat :: "nat \<Rightarrow> string" where
  "string_of_nat n =
    (if n < 10 then [''0123456789'' ! n]
     else string_of_nat (n div 10) @ [''0123456789'' ! (n mod 10)])"
  by pat_completeness auto
termination
  by (relation "measure (\<lambda>n. n)") auto

declare string_of_nat.simps [simp del]

definition number_toString :: "int \<Rightarrow> string" where
  "number_toString i =
    (if i < 0 then ''-'' @ string_of_nat (nat (- i)) else string_of_nat (nat i))"

text \<open>The text of a value, as string concatenation takes it.\<close>

fun to_text :: "jsval \<Rightarrow> string" where
  "to_text (Num n) = number_toString n"
| "to_text (Str s) = s"
| "to_text (Obj t) = t"

text \<open>\<open>x + y\<close>: the sum of two numbers, the concatenation of the texts otherwise.\<close>

fun js_add :: "jsval \<Rightarrow> jsval \<Rightarrow> jsval" where
  "js_add (Num a) (Num b) = Num (a + b)"
| "js_add x y = Str (to_text x @ to_text y)"

text \<open>Strings compare by their code units, the shorter first when one begins the other.\<close>

fun str_less :: "string \<Rightarrow> string \<Rightarrow> bool" where
  "str_less s [] = False"
| "str_less [] (d # ds) = True"
| "str_less (c # cs) (d # ds) =
     ((of_char c :: nat) < of_char d \<or> (c = d \<and> str_less cs ds))"

text \<open>
  The comparison behind \<open><\<close>, \<open>>\<close> and \<open>>=\<close>. Two numbers compare as numbers. When
  neither side is a number, both are strings once objects are converted, and compare as
  strings. A number against a string converts the string to a number, which is \<open>NaN\<close>
  here: the comparison is undefined (\<open>None\<close>) and every operator built on it is false.
\<close>

fun js_lt :: "jsval \<Rightarrow> jsval \<Rightarrow> bool option" where
  "js_lt (Num a) (Num b) = Some (a < b)"
| "js_lt (Num a) y = None"
| "js_lt x (Num b) = None"
| "js_lt x y = Some (str_less (to_text x) (to_text y))"

definition js_less :: "jsval \<Rightarrow> jsval \<Rightarrow> bool" where
  "js_less x y = (js_lt x y = Some True)"

definition js_greater :: "jsval \<Rightarrow> jsval \<Rightarrow> bool" where
  "js_greater x y = (js_lt y x = Some True)"

definition js_geq :: "jsval \<Rightarrow> jsval \<Rightarrow> bool" where
  "js_geq x y = (js_lt x y = Some False)"

text \<open>Conversion to a number.\<close>

fun to_num :: "jsval \<Rightarrow> jsnum" where
  "to_num (Num n) = Finite (rat_of_int n)"
| "to_num x = NaN"

text \<open>
  Every arithmetic operation of the source yields the double nearest to the exact result,
  the one with the even mantissa when two are equally near (IEEE 754, binary64):
  53 bits of mantissa, exponents from \<open>-1022\<close> to \<open>1023\<close>, below that the fixed step
  \<open>2^-1074\<close>, and an infinity when the rounded value reaches \<open>2^1024\<close>.
\<close>

function bit_length :: "int \<Rightarrow> nat" where
  "bit_length n = (if n \<le> 0 then 0 else Suc (bit_length (n div 2)))"
  by pat_completeness auto
termination
  by (relation "measure nat") auto

declare bit_length.simps [simp del]

text \<open>The exponent of a positive rational: the largest \<open>e\<close> with \<open>2^e \<le> a\<close>.\<close>

definition floor_log2 :: "rat \<Rightarrow> int" where
  "floor_log2 a =
    (if 1 \<le> a then int (bit_length \<lfloor>a\<rfloor>) - 1
     else let b = 1 / a; l = int (bit_length \<lfloor>b\<rfloor>) - 1
          in if b = 2 ^ nat l then - l else - l - 1)"

definition pow2 :: "int \<Rightarrow> rat" where
  "pow2 k = (if 0 \<le> k then 2 ^ nat k else 1 / 2 ^ nat (- k))"

definition round_half_even :: "rat \<Rightarrow> int" where
  "round_half_even m =
    (let f = \<lfloor>m\<rfloor>; d = m - rat_of_int f
     in if d < 1 / 2 then f else if 1 / 2 < d then f + 1 else if even f then f else f + 1)"

definition to_double :: "rat \<Rightarrow> jsnum" where
  "to_double x =
    (if x = 0 then Finite 0
     else
       let a = \<bar>x\<bar>;
           e = max (floor_log2 a) (- 1022);
           n = round_half_even (a * pow2 (52 - e));
           r = rat_of_int n * pow2 (e - 52)
       in if 1024 \<le> e \<or> (e = 1023 \<and> n = 2 ^ 53)
          then (if 0 < x then PosInfinity else NegInfinity)
          else Finite (if 0 < x then r else - r))"

text \<open>\<open>a / b\<close> and \<open>a * b\<close> for an integer \<open>b\<close> (a divisor \<open>0\<close> is the positive zero).\<close>

fun js_quot :: "jsnum \<Rightarrow> int \<Rightarrow> jsnum" where
  "js_quot (Finite a) b =
    (if b = 0
     then (if a = 0 then NaN else if a > 0 then PosInfinity else NegInfinity)
     else to_double (a / rat_of_int b))"
| "js_quot NaN b = NaN"
| "js_quot PosInfinity b = (if b < 0 then NegInfinity else PosInfinity)"
| "js_quot NegInfinity b = (if b < 0 then PosInfinity else NegInfinity)"

fun js_times :: "jsnum \<Rightarrow> int \<Rightarrow> jsnum" where
  "js_times (Finite a) b = to_double (a * rat_of_int b)"
| "js_times NaN b = NaN"
| "js_times PosInfinity b =
    (if b = 0 then NaN else if b < 0 then NegInfinity else PosInfinity)"
| "js_times NegInfinity b =
    (if b = 0 then NaN else if b < 0 then PosInfinity else NegInfinity)"

fun js_minus :: "jsnum \<Rightarrow> jsnum \<Rightarrow> jsnum" where
  "js_minus (Finite a) (Finite b) = to_double (a - b)"
| "js_minus NaN y = NaN"
| "js_minus x NaN = NaN"
| "js_minus PosInfinity PosInfinity = NaN"
| "js_minus NegInfinity NegInfinity = NaN"
| "js_minus PosInfinity y = PosInfinity"
| "js_minus NegInfinity y = NegInfinity"
| "js_minus (Finite a) PosInfinity = NegInfinity"
| "js_minus (Finite a) NegInfinity = PosInfinity"

text \<open>\<open>x < y\<close> on such numbers: false as soon as one side is \<open>NaN\<close>.\<close>

fun jsnum_less :: "jsnum \<Rightarrow> jsnum \<Rightarrow> bool" where
  "jsnum_less (Finite a) (Finite b) = (a < b)"
| "jsnum_less NaN y = False"
| "jsnum_less x NaN = False"
| "jsnum_less x NegInfinity = False"
| "jsnum_less PosInfinity y = False"
| "jsnum_less x PosInfinity = True"
| "jsnum_less NegInfinity y = True"

text \<open>\<open>Math.max\<close> and \<open>Math.min\<close> of two numbers: \<open>NaN\<close> as soon as one of them is.\<close>

fun Math_max2 :: "jsnum \<Rightarrow> jsnum \<Rightarrow> jsnum" where
  "Math_max2 (Finite a) (Finite b) = Finite (max a b)"
| "Math_max2 NaN y = NaN"
| "Math_max2 x NaN = NaN"
| "Math_max2 PosInfinity y = PosInfinity"
| "Math_max2 x PosInfinity = PosInfinity"
| "Math_max2 NegInfinity y = y"
| "Math_max2 x NegInfinity = x"

fun Math_min2 :: "jsnum \<Rightarrow> jsnum \<Rightarrow> jsnum" where
  "Math_min2 (Finite a) (Finite b) = Finite (min a b)"
| "Math_min2 NaN y = NaN"
| "Math_min2 x NaN = NaN"
| "Math_min2 NegInfinity y = NegInfinity"
| "Math_min2 x NegInfinity = NegInfinity"
| "Math_min2 PosInfinity y = y"
| "Math_min2 x PosInfinity = x"

text \<open>\<open>Math.round\<close>: the nearest integer, a half rounded up. The function is exact.\<close>

fun Math_round :: "jsnum \<Rightarrow> jsnum" where
  "Math_round (Finite r) = Finite (rat_of_int \<lfloor>r + 1 / 2\<rfloor>)"
| "Math_round x = x"

section \<open>Layout calculator (\<open>core/slot-mapper/slot-calculator.ts\<close>)\<close>

text \<open>
  \<open>getTypeSize\<close>: the byte size of a declared type. The table \<open>sizeMap\<close> is an object
  literal, so \<open>sizeMap[typeName]\<close> finds the table's own entries first and then the
  members that every object inherits from \<open>Object.prototype\<close>: eleven functions and, under
  \<open>__proto__\<close>, the prototype object itself (given here with the texts that Node prints
  for them). Only a name found in neither yields \<open>undefined\<close>, which \<open>|| 32\<close> turns into
  32; a function or an object is truthy and is returned as the size.
\<close>

definition sizeMap :: "(string \<times> int) list" where
  "sizeMap =
    [(''bool'', 1),
     (''uint8'', 1), (''int8'', 1),
     (''uint16'', 2), (''int16'', 2),
     (''uint32'', 4), (''int32'', 4),
     (''uint64'', 8), (''int64'', 8),
     (''uint128'', 16), (''int128'', 16),
     (''uint256'', 32), (''int256'', 32),
     (''uint'', 32), (''int'', 32),
     (''address'', 20),
     (''bytes1'', 1), (''bytes2'', 2), (''bytes4'', 4), (''bytes8'', 8),
     (''bytes16'', 16), (''bytes32'', 32),
     (''string'', 32),
     (''bytes'', 32)]"

definition native_function :: "string \<Rightarrow> jsval" where
  "native_function n = Obj (''function '' @ n @ ''() { [native code] }'')"

definition object_prototype :: "(string \<times> jsval) list" where
  "object_prototype =
    [(''constructor'', native_function ''Object''),
     (''__defineGetter__'', native_function ''__defineGetter__''),
     (''__defineSetter__'', native_function ''__defineSetter__''),
     (''hasOwnProperty'', native_function ''hasOwnProperty''),
     (''__lookupGetter__'', native_function ''__lookupGetter__''),
     (''__lookupSetter__'', native_function ''__lookupSetter__''),
     (''isPrototypeOf'', native_function ''isPrototypeOf''),
     (''propertyIsEnumerable'', native_function ''propertyIsEnumerable''),
     (''toString'', native_function ''toString''),
     (''valueOf'', native_function ''valueOf''),
     (''__proto__'', Obj ''[object Object]''),
     (''toLocaleString'', native_function ''toLocaleString'')]"

definition getTypeSize :: "string \<Rightarrow> jsval" where
  "getTypeSize tn =
    (if includes_str tn ''[]'' then Num 32
     else if includes_str tn ''mapping'' then Num 32
     else (case map_of sizeMap tn of
             Some n \<Rightarrow> (if n = 0 then Num 32 else Num n)
           | None \<Rightarrow>
               (case map_of object_prototype tn of
                  Some v \<Rightarrow> v
                | None \<Rightarrow> Num 32)))"

text \<open>
  The state of the \<open>forEach\<close> loop of \<open>calculateSlots\<close>: the variables pushed so far and
  the cursor. The slot is only ever incremented and stays a number; the offset is what
  \<open>+=\<close> makes of it.
\<close>

record Cursor =
  placed :: "StorageVariable list"
  currentSlot :: int
  currentOffset :: jsval

text \<open>One round of the loop body.\<close>

definition place :: "Cursor \<Rightarrow> StateVariable \<Rightarrow> Cursor" where
  "place st variable =
    (let sz = getTypeSize (typeName variable);
         bump = js_greater (js_add (currentOffset st) sz) (Num 32);
         cs = (if bump then currentSlot st + 1 else currentSlot st);
         co = (if bump then Num 0 else currentOffset st);
         v = \<lparr> name = name_sv variable, type = typeName variable,
               slot = cs, offset = co, size_v = sz,
               packed = Some (js_greater co (Num 0) \<or> js_less (js_add co sz) (Num 32)),
               isStateVariable = True \<rparr>;
         co' = js_add co sz
     in if js_geq co' (Num 32)
        then \<lparr> placed = placed st @ [v], currentSlot = cs + 1, currentOffset = Num 0 \<rparr>
        else \<lparr> placed = placed st @ [v], currentSlot = cs, currentOffset = co' \<rparr>)"

definition place_all :: "StateVariable list \<Rightarrow> Cursor" where
  "place_all vs = foldl place \<lparr> placed = [], currentSlot = 0, currentOffset = Num 0 \<rparr> vs"

text \<open>\<open>Math.max(...xs)\<close>. The source calls it on a non-empty list only (the empty
  case is guarded by \<open>variables.length > 0\<close>), so the first equation is never used.\<close>

fun Math_max :: "int list \<Rightarrow> int" where
  "Math_max [] = 0"
| "Math_max (x # xs) = foldl max x xs"

text \<open>
  The second loop counts the variables of every slot in a \<open>Map\<close>; \<open>packedSlots\<close> are the
  keys counted more than once, in the order of the map.
\<close>

definition count_slot :: "(int \<times> int) list \<Rightarrow> StorageVariable \<Rightarrow> (int \<times> int) list" where
  "count_slot slotGroups variable =
    map_set (slot variable)
      ((case map_get slotGroups (slot variable) of None \<Rightarrow> 0 | Some c \<Rightarrow> c) + 1)
      slotGroups"

definition calculateSlots :: "'a ContractAST_scheme \<Rightarrow> SlotMapping" where
  "calculateSlots contract =
    (let vars = placed (place_all (stateVariables contract));
         total = (if length vars > 0 then Math_max (map slot vars) + 1 else 0);
         slotGroups = foldl count_slot [] vars
     in \<lparr> contractName = name_c contract,
          variables = vars,
          totalSlots = total,
          packedSlots = map fst (filter (\<lambda>e. snd e > 1) slotGroups) \<rparr>)"

section \<open>Slot diff engine (\<open>core/slot-mapper/collision-detector.ts\<close>, in \<open>unnamed/part_009\<close>)\<close>

record Collision =
  slot_c :: int
  range_c :: "jsnum \<times> jsnum"
  v1_c :: StorageVariable
  v2_c :: StorageVariable
  reason :: string

record CollisionReport =
  contract :: string
  collisions :: "Collision list"
  moved :: "StorageVariable list"
  added :: "StorageVariable list"
  removed :: "StorageVariable list"
  safe :: bool

text \<open>The identity key \<open>`${v.name}|${v.type}`\<close> of a variable.\<close>

definition byKey :: "StorageVariable \<Rightarrow> string" where
  "byKey v = name v @ ''|'' @ type v"

definition key_map :: "SlotMapping \<Rightarrow> (string \<times> StorageVariable) list" where
  "key_map m = new_Map (map (\<lambda>v. (byKey v, v)) (variables m))"

text \<open>
  The loop over \<open>keys1\<close> pushes to \<open>removed\<close> or to \<open>moved\<close>, the loop over \<open>keys2\<close> to
  \<open>added\<close>; each array is the sequence of its pushes.
\<close>

definition removed_of ::
  "(string \<times> StorageVariable) list \<Rightarrow> (string \<times> StorageVariable) list \<Rightarrow> StorageVariable list" where
  "removed_of keys1 keys2 = map snd (filter (\<lambda>e. \<not> map_has keys2 (fst e)) keys1)"

definition moved_of ::
  "(string \<times> StorageVariable) list \<Rightarrow> (string \<times> StorageVariable) list \<Rightarrow> StorageVariable list" where
  "moved_of keys1 keys2 =
    concat (map (\<lambda>e. case map_get keys2 (fst e) of
                        None \<Rightarrow> []
                      | Some var2 \<Rightarrow>
                          if slot var2 \<noteq> slot (snd e) \<or> offset var2 \<noteq> offset (snd e)
                          then [var2] else [])
                keys1)"

definition added_of ::
  "(string \<times> StorageVariable) list \<Rightarrow> (string \<times> StorageVariable) list \<Rightarrow> StorageVariable list" where
  "added_of keys1 keys2 = map snd (filter (\<lambda>e. \<not> map_has keys1 (fst e)) keys2)"

text \<open>
  Grouping by slot, as \<open>occupancy\<close> and \<open>groupVariablesBySlot\<close> both do: a slot seen for
  the first time gets a fresh list, then the variable is pushed to the list of its slot.
\<close>

definition group_push ::
  "(int \<times> StorageVariable list) list \<Rightarrow> StorageVariable \<Rightarrow> (int \<times> StorageVariable list) list" where
  "group_push groups v =
    (case map_get groups (slot v) of
       None \<Rightarrow> map_set (slot v) [v] groups
     | Some l \<Rightarrow> map_set (slot v) (l @ [v]) groups)"

definition occupancy :: "SlotMapping \<Rightarrow> (int \<times> StorageVariable list) list" where
  "occupancy m = foldl group_push [] (variables m)"

text \<open>
  \<open>occupancy\<close> returns a plain object. \<open>Object.keys\<close> lists the keys that are array
  indices (0 to \<open>2^32 - 2\<close>) in ascending order first, then the other keys in the order of
  their creation.
\<close>

definition is_array_index :: "int \<Rightarrow> bool" where
  "is_array_index k = (0 \<le> k \<and> k < 2 ^ 32 - 1)"

definition Object_keys :: "(int \<times> 'v) list \<Rightarrow> int list" where
  "Object_keys obj =
    sort (filter is_array_index (map fst obj))
    @ filter (\<lambda>k. \<not> is_array_index k) (map fst obj)"

text \<open>\<open>occ[slot] ?? []\<close>.\<close>

definition occupants :: "(int \<times> StorageVariable list) list \<Rightarrow> int \<Rightarrow> StorageVariable list" where
  "occupants occ s = (case map_get occ s of None \<Rightarrow> [] | Some l \<Rightarrow> l)"

text \<open>The body of the innermost loop: the collisions pushed for one pair.\<close>

definition check_pair :: "string list \<Rightarrow> int \<Rightarrow> StorageVariable \<Rightarrow> StorageVariable \<Rightarrow> Collision list" where
  "check_pair movedKeys s a b =
    (if byKey a \<in> set movedKeys \<or> byKey b \<in> set movedKeys then []
     else
       let aStart = offset a; aEnd = js_add (offset a) (size_v a);
           bStart = offset b; bEnd = js_add (offset b) (size_v b);
           hasOverlap = (js_less aStart bEnd \<and> js_less bStart aEnd);
           sameName = (name a = name b);
           sameType = (type a = type b)
       in if hasOverlap \<and> (\<not> sameName \<or> \<not> sameType)
          then [\<lparr> slot_c = s,
                  range_c = (Math_max2 (to_num aStart) (to_num bStart),
                             Math_min2 (js_minus (to_num aEnd) (Finite 1))
                                       (js_minus (to_num bEnd) (Finite 1))),
                  v1_c = a, v2_c = b,
                  reason =
                    (if \<not> sameName
                     then ''different variables occupy same bytes ('' @ name a @ '' vs '' @ name b
                            @ '')''
                     else ''same variable has different type ('' @ type a @ '' vs '' @ type b
                            @ '')'') \<rparr>]
          else [])"

definition compare :: "SlotMapping \<Rightarrow> SlotMapping \<Rightarrow> CollisionReport" where
  "compare m1 m2 =
    (let keys1 = key_map m1;
         keys2 = key_map m2;
         mv = moved_of keys1 keys2;
         rm = removed_of keys1 keys2;
         ad = added_of keys1 keys2;
         occ1 = occupancy m1;
         occ2 = occupancy m2;
         slots = new_Set (Object_keys occ1 @ Object_keys occ2);
         movedKeys = map byKey mv;
         cs = concat (map (\<lambda>s.
                concat (map (\<lambda>a.
                  concat (map (\<lambda>b. check_pair movedKeys s a b) (occupants occ2 s)))
                  (occupants occ1 s)))
                slots)
     in \<lparr> contract = contractName m1,
          collisions = cs,
          moved = mv,
          added = ad,
          removed = rm,
          safe = (\<not> (length mv > 0 \<or> length cs > 0)) \<rparr>)"

subsection \<open>The single-mapping detector\<close>

datatype CollisionKind = VariableOverlap | InheritanceConflict | ProxyCollision | LayoutMismatch

datatype CollisionSeverity = Low | Medium | High | CriticalSeverity

record CollisionVariable =
  name_cv :: string
  type_cv :: string
  contract_cv :: "string option"
  size_cv :: jsval
  offset_cv :: jsval

record StorageCollision =
  id_sc :: string
  type_sc :: CollisionKind
  severity_sc :: CollisionSeverity
  slot_sc :: int
  variables_sc :: "CollisionVariable list"
  description_sc :: string
  impact :: string
  recommendation_sc :: string
  gasImpact :: "int option"

definition groupVariablesBySlot :: "StorageVariable list \<Rightarrow> (int \<times> StorageVariable list) list" where
  "groupVariablesBySlot vs = foldl group_push [] vs"

definition calculateSeverity :: "StorageVariable list \<Rightarrow> jsval \<Rightarrow> CollisionSeverity" where
  "calculateSeverity vs totalSize =
    (if js_greater totalSize (Num 64) then CriticalSeverity
     else if js_greater totalSize (Num 48) then High
     else if length vs > 3 then Medium
     else Low)"

definition getImpactDescription :: "CollisionSeverity \<Rightarrow> string" where
  "getImpactDescription sev =
    (case sev of
       CriticalSeverity \<Rightarrow> ''Critical storage corruption risk''
     | High \<Rightarrow> ''High risk of data corruption''
     | Medium \<Rightarrow> ''Potential storage conflicts''
     | Low \<Rightarrow> ''Minor storage inefficiency'')"

definition getRecommendation :: "StorageVariable list \<Rightarrow> string" where
  "getRecommendation vs =
    ''Reorganize variables to prevent slot overlap. Consider using smaller data types or packing variables efficiently.''"

definition estimateGasImpact :: "StorageVariable list \<Rightarrow> int" where
  "estimateGasImpact vs = int (length vs) * 20000"

text \<open>\<open>analyzeSlotCollision\<close> returns \<open>null\<close> (here \<open>None\<close>) or a collision.\<close>

definition analyzeSlotCollision :: "int \<Rightarrow> StorageVariable list \<Rightarrow> StorageCollision option" where
  "analyzeSlotCollision s vs =
    (if length vs \<le> 1 then None
     else
       let totalSize = foldl (\<lambda>acc v. js_add acc (size_v v)) (Num 0) vs;
           hasOverlap = js_greater totalSize (Num 32)
       in if \<not> hasOverlap then None
          else
            let severity = calculateSeverity vs totalSize
            in Some \<lparr> id_sc = ''collision_slot_'' @ number_toString s,
                      type_sc = VariableOverlap,
                      severity_sc = severity,
                      slot_sc = s,
                      variables_sc =
                        map (\<lambda>v. \<lparr> name_cv = name v, type_cv = type v, contract_cv = None,
                                    size_cv = size_v v, offset_cv = offset v \<rparr>) vs,
                      description_sc = ''Multiple variables overlap in slot '' @ number_toString s,
                      impact = getImpactDescription severity,
                      recommendation_sc = getRecommendation vs,
                      gasImpact = Some (estimateGasImpact vs) \<rparr>)"

text \<open>\<open>detect\<close>: one round of the loop over the groups pushes at most one collision.\<close>

definition detect_group :: "int \<times> StorageVariable list \<Rightarrow> StorageCollision list" where
  "detect_group e =
    (if length (snd e) > 1
     then (case analyzeSlotCollision (fst e) (snd e) of None \<Rightarrow> [] | Some c \<Rightarrow> [c])
     else [])"

definition detect :: "SlotMapping \<Rightarrow> StorageCollision list" where
  "detect slotMapping = concat (map detect_group (groupVariablesBySlot (variables slotMapping)))"

section \<open>Upgrade analyzer (\<open>core/slot-mapper/upgrade-analyzer.ts\<close>)\<close>

datatype ChangeType = Added | Removed | Moved | TypeChanged | CollisionChange

datatype Severity = Safe | Warning | Critical

datatype Level = LevelSafe | Caution | Unsafe | LevelCritical

record UpgradeChange =
  type_uc :: ChangeType
  variable :: StorageVariable
  oldVariable :: "StorageVariable option"
  severity :: Severity
  description :: string
  recommendation :: "string option"

record UpgradeCompatibility =
  score :: int
  level :: Level
  description_compat :: string

subsection \<open>Changes\<close>

text \<open>The double quote inside the messages.\<close>

definition dq :: string where
  "dq = [CHR 0x22]"

definition collision_change :: "Collision \<Rightarrow> UpgradeChange" where
  "collision_change collision =
    \<lparr> type_uc = CollisionChange,
      variable = v2_c collision,
      oldVariable = Some (v1_c collision),
      severity = Critical,
      description = ''Storage collision: '' @ reason collision,
      recommendation = Some
        ''This collision will corrupt storage. Consider adding new variables at the end instead.'' \<rparr>"

definition moved_change :: "(string \<times> StorageVariable) list \<Rightarrow> StorageVariable \<Rightarrow> UpgradeChange" where
  "moved_change v1VarMap v =
    (let oldVar = map_get v1VarMap (name v @ ''|'' @ type v)
     in \<lparr> type_uc = Moved,
          variable = v,
          oldVariable = oldVar,
          severity = Critical,
          description = ''Variable '' @ dq @ name v @ dq @ '' moved from slot ''
            @ (case oldVar of None \<Rightarrow> ''undefined'' | Some w \<Rightarrow> number_toString (slot w))
            @ '' to slot '' @ number_toString (slot v),
          recommendation = Some
            ''Moving variables breaks storage layout. Add new variables at the end instead.'' \<rparr>)"

definition removed_change :: "StorageVariable \<Rightarrow> UpgradeChange" where
  "removed_change v =
    \<lparr> type_uc = Removed,
      variable = v,
      oldVariable = None,
      severity = Warning,
      description = ''Variable '' @ dq @ name v @ dq @ '' removed from storage'',
      recommendation = Some
        ''Removing variables can break dependent contracts. Consider deprecation instead.'' \<rparr>"

definition added_change :: "StorageVariable \<Rightarrow> UpgradeChange" where
  "added_change v =
    \<lparr> type_uc = Added,
      variable = v,
      oldVariable = None,
      severity = Safe,
      description = ''New variable '' @ dq @ name v @ dq @ '' added at slot ''
        @ number_toString (slot v),
      recommendation = Some ''Adding variables at the end is safe for upgrades.'' \<rparr>"

text \<open>One round of the loop over \<open>v2NameMap\<close>.\<close>

definition type_change :: "(string \<times> StorageVariable) list \<Rightarrow> string \<times> StorageVariable \<Rightarrow> UpgradeChange list" where
  "type_change v1NameMap e =
    (case map_get v1NameMap (fst e) of
       None \<Rightarrow> []
     | Some v1Var \<Rightarrow>
         if type v1Var \<noteq> type (snd e)
         then [\<lparr> type_uc = TypeChanged,
                 variable = snd e,
                 oldVariable = Some v1Var,
                 severity = Critical,
                 description = ''Variable '' @ dq @ fst e @ dq @ '' type changed from ''
                   @ type v1Var @ '' to '' @ type (snd e),
                 recommendation = Some
                   ''Type changes can corrupt data. Use a new variable name instead.'' \<rparr>]
         else [])"

definition name_map :: "SlotMapping \<Rightarrow> (string \<times> StorageVariable) list" where
  "name_map m = new_Map (map (\<lambda>v. (name v, v)) (variables m))"

text \<open>
  \<open>identifyChanges\<close> runs five loops in a row, each pushing to \<open>changes\<close>; a loop is
  a left fold that appends what its round pushes.
\<close>

definition push_each :: "('a \<Rightarrow> 'b list) \<Rightarrow> 'b list \<Rightarrow> 'a list \<Rightarrow> 'b list" where
  "push_each body acc xs = foldl (\<lambda>out x. out @ body x) acc xs"

definition identifyChanges :: "SlotMapping \<Rightarrow> SlotMapping \<Rightarrow> CollisionReport \<Rightarrow> UpgradeChange list" where
  "identifyChanges m1 m2 collisionReport =
    (let v1VarMap = key_map m1;
         v1NameMap = name_map m1;
         v2NameMap = name_map m2;
         changes0 = push_each (\<lambda>c. [collision_change c]) [] (collisions collisionReport);
         changes1 = push_each (\<lambda>v. [moved_change v1VarMap v]) changes0 (moved collisionReport);
         changes2 = push_each (\<lambda>v. [removed_change v]) changes1 (removed collisionReport);
         changes3 = push_each (\<lambda>v. [added_change v]) changes2 (added collisionReport)
     in push_each (type_change v1NameMap) changes3 v2NameMap)"

subsection \<open>Compatibility\<close>

definition assessCompatibility :: "UpgradeChange list \<Rightarrow> CollisionReport \<Rightarrow> UpgradeCompatibility" where
  "assessCompatibility chs collisionReport =
    (let criticalCount = int (length (filter (\<lambda>c. severity c = Critical) chs));
         warningCount = int (length (filter (\<lambda>c. severity c = Warning) chs));
         score0 = 100 - criticalCount * 40;
         score1 = score0 - warningCount * 15;
         score2 = max 0 score1
     in if criticalCount > 0
        then \<lparr> score = score2, level = LevelCritical,
               description_compat =
                 ''Critical storage layout conflicts detected. Upgrade will likely fail or corrupt data.'' \<rparr>
        else if warningCount > 2
        then \<lparr> score = score2, level = Unsafe,
               description_compat = ''Multiple warnings detected. Upgrade may cause issues.'' \<rparr>
        else if warningCount > 0
        then \<lparr> score = score2, level = Caution,
               description_compat =
                 ''Some warnings detected. Review carefully before upgrading.'' \<rparr>
        else \<lparr> score = score2, level = LevelSafe,
               description_compat =
                 ''Storage layout is upgrade-safe. Only new variables added.'' \<rparr>)"

subsection \<open>Storage growth and recommendations\<close>

record StorageGrowth =
  slotsAdded :: int
  bytesWasted :: jsnum
  efficiencyChange :: jsnum

text \<open>\<open>variables.reduce((sum, v) => sum + v.size, 0)\<close>.\<close>

definition usedBytes :: "SlotMapping \<Rightarrow> jsval" where
  "usedBytes m = foldl (\<lambda>acc v. js_add acc (size_v v)) (Num 0) (variables m)"

definition calculateStorageGrowth :: "SlotMapping \<Rightarrow> SlotMapping \<Rightarrow> StorageGrowth" where
  "calculateStorageGrowth m1 m2 =
    (let v1UsedBytes = usedBytes m1;
         v2UsedBytes = usedBytes m2;
         v1WastedBytes = js_minus (Finite (rat_of_int (totalSlots m1 * 32))) (to_num v1UsedBytes);
         v2WastedBytes = js_minus (Finite (rat_of_int (totalSlots m2 * 32))) (to_num v2UsedBytes);
         v1Efficiency = js_times (js_quot (to_num v1UsedBytes) (totalSlots m1 * 32)) 100;
         v2Efficiency = js_times (js_quot (to_num v2UsedBytes) (totalSlots m2 * 32)) 100;
         change = js_minus v2Efficiency v1Efficiency
     in \<lparr> slotsAdded = totalSlots m2 - totalSlots m1,
          bytesWasted = js_minus v2WastedBytes v1WastedBytes,
          efficiencyChange = js_quot (Math_round (js_times change 100)) 100 \<rparr>)"

definition calculateEfficiency :: "SlotMapping \<Rightarrow> jsnum" where
  "calculateEfficiency m = js_times (js_quot (to_num (usedBytes m)) (totalSlots m * 32)) 100"

text \<open>
  The recommendations are sentences that start with a pictograph. Each is represented
  by its kind and the number printed in it.
\<close>

datatype Recommendation =
    DoNotDeploy nat
  | ConsiderNewContract
  | WarningsDetected nat
  | EfficiencyDecreased jsnum
  | StorageGrew int
  | UpgradeAppearsSafe

definition generateRecommendations :: "UpgradeChange list \<Rightarrow> SlotMapping \<Rightarrow> SlotMapping \<Rightarrow> Recommendation list" where
  "generateRecommendations chs m1 m2 =
    (let criticalChanges = filter (\<lambda>c. severity c = Critical) chs;
         warningChanges = filter (\<lambda>c. severity c = Warning) chs;
         r0 = (if length criticalChanges > 0
               then [DoNotDeploy (length criticalChanges), ConsiderNewContract] else []);
         r1 = r0 @ (if length warningChanges > 0
               then [WarningsDetected (length warningChanges)] else []);
         v1Efficiency = calculateEfficiency m1;
         v2Efficiency = calculateEfficiency m2;
         r2 = r1 @ (if jsnum_less v2Efficiency (js_minus v1Efficiency (Finite 10))
               then [EfficiencyDecreased (Math_round (js_minus v1Efficiency v2Efficiency))]
               else []);
         slotGrowth = totalSlots m2 - totalSlots m1;
         r3 = r2 @ (if slotGrowth > 5 then [StorageGrew slotGrowth] else [])
     in if length r3 = 0 then [UpgradeAppearsSafe] else r3)"

subsection \<open>\<open>analyze\<close>\<close>

record Summary =
  totalSlots_s :: int
  variables_s :: nat
  packedSlots_s :: nat

record UpgradeAnalysis =
  contractName_ua :: string
  v1Summary :: Summary
  v2Summary :: Summary
  changes :: "UpgradeChange list"
  compatibility :: UpgradeCompatibility
  recommendations :: "Recommendation list"
  collisionReport_ua :: CollisionReport
  storageGrowth :: StorageGrowth

definition analyze :: "SlotMapping \<Rightarrow> SlotMapping \<Rightarrow> UpgradeAnalysis" where
  "analyze m1 m2 =
    (let collisionReport = compare m1 m2;
         chs = identifyChanges m1 m2 collisionReport
     in \<lparr> contractName_ua = contractName m1,
          v1Summary = \<lparr> totalSlots_s = totalSlots m1,
                        variables_s = length (variables m1),
                        packedSlots_s = length (packedSlots m1) \<rparr>,
          v2Summary = \<lparr> totalSlots_s = totalSlots m2,
                        variables_s = length (variables m2),
                        packedSlots_s = length (packedSlots m2) \<rparr>,
          changes = chs,
          compatibility = assessCompatibility chs collisionReport,
          recommendations = generateRecommendations chs m1 m2,
          collisionReport_ua = collisionReport,
          storageGrowth = calculateStorageGrowth m1 m2 \<rparr>)"

section \<open>Notions used in the statements\<close>

text \<open>
  The sum of the sizes of the variables of slot \<open>s\<close>, as the source adds sizes up
  (\<open>reduce((sum, v) => sum + v.size, 0)\<close>).
\<close>

definition slot_sum :: "StorageVariable list \<Rightarrow> int \<Rightarrow> jsval" where
  "slot_sum vs s =
     foldl (\<lambda>acc v. js_add acc (size_v v)) (Num 0) (filter (\<lambda>v. slot v = s) vs)"

text \<open>
  The invariant of the loop of \<open>calculateSlots\<close>. No slot's sum is a number above 32. As
  long as the cursor is a number it stays inside the open slot, whose sum so far it is,
  and no slot beyond is in use; once the cursor is a string, the sum of the open slot is
  a string too.
\<close>

definition cursor_ok :: "Cursor \<Rightarrow> bool" where
  "cursor_ok st \<longleftrightarrow>
     (\<forall>s. \<not> js_greater (slot_sum (placed st) s) (Num 32))
     \<and> (case currentOffset st of
          Num off \<Rightarrow> 0 \<le> off \<and> off < 32
            \<and> slot_sum (placed st) (currentSlot st) = Num off
            \<and> (\<forall>v \<in> set (placed st). slot v \<le> currentSlot st)
        | Str S \<Rightarrow> (\<exists>T. slot_sum (placed st) (currentSlot st) = Str T)
        | Obj t \<Rightarrow> False)"

text \<open>
  Contracts whose declared types all get a number as their size (every type name that
  \<open>Object.prototype\<close> does not define), and the invariant that holds for them: the cursor
  stays a number and every variable is flagged packed exactly when it is shorter than a
  slot.
\<close>

definition numeric_sizes :: "StateVariable list \<Rightarrow> bool" where
  "numeric_sizes ds \<longleftrightarrow> (\<forall>d \<in> set ds. \<exists>n. getTypeSize (typeName d) = Num n)"

definition cursor_numeric :: "Cursor \<Rightarrow> bool" where
  "cursor_numeric st \<longleftrightarrow>
     (\<exists>off. currentOffset st = Num off \<and> 0 \<le> off)
     \<and> (\<forall>v \<in> set (placed st). \<exists>n. size_v v = Num n \<and> packed v = Some (n < 32))"

text \<open>The contract of the calculator's unit test:
  \<open>uint256 value; address owner; bool isActive; uint8 smallNumber;\<close>\<close>

definition declare_var :: "string \<Rightarrow> string \<Rightarrow> StateVariable" where
  "declare_var n t =
    \<lparr> name_sv = n, typeName = t, visibility = Public,
      isConstant = False, isImmutable = False, initialValue = None \<rparr>"

definition mockContract :: ContractAST where
  "mockContract =
    \<lparr> name_c = ''MockContract'', baseContracts = [],
      stateVariables =
        [declare_var ''value'' ''uint256'',
         declare_var ''owner'' ''address'',
         declare_var ''isActive'' ''bool'',
         declare_var ''smallNumber'' ''uint8''] \<rparr>"

text \<open>
  Two contracts with a variable of a user-defined type called \<open>toString\<close>, a name that
  every JavaScript object inherits: \<open>toString x; uint256 y; uint8 z;\<close> and
  \<open>toString x; uint8 z;\<close>.
\<close>

definition inheritedContract :: ContractAST where
  "inheritedContract =
    \<lparr> name_c = ''Inherited'', baseContracts = [],
      stateVariables =
        [declare_var ''x'' ''toString'',
         declare_var ''y'' ''uint256'',
         declare_var ''z'' ''uint8''] \<rparr>"

definition inheritedPair :: ContractAST where
  "inheritedPair =
    \<lparr> name_c = ''Inherited'', baseContracts = [],
      stateVariables = [declare_var ''x'' ''toString'', declare_var ''z'' ''uint8''] \<rparr>"

text \<open>
  Two variables whose byte ranges inside a slot meet, by the test of the overlap scan
  (\<open>aStart < bEnd && bStart < aEnd\<close>), and two with the same identity.
\<close>

definition overlap :: "StorageVariable \<Rightarrow> StorageVariable \<Rightarrow> bool" where
  "overlap a b \<longleftrightarrow>
     js_less (offset a) (js_add (offset b) (size_v b))
     \<and> js_less (offset b) (js_add (offset a) (size_v a))"

definition same_identity :: "StorageVariable \<Rightarrow> StorageVariable \<Rightarrow> bool" where
  "same_identity a b \<longleftrightarrow> name a = name b \<and> type a = type b"

text \<open>
  A list of variables is free of overlaps of its own when two of its variables that share
  a slot and overlap there always have the same name and type.
\<close>

definition self_disjoint :: "StorageVariable list \<Rightarrow> bool" where
  "self_disjoint vs \<longleftrightarrow>
     (\<forall>a \<in> set vs. \<forall>b \<in> set vs. slot a = slot b \<and> overlap a b \<longrightarrow> same_identity a b)"

text \<open>
  A second invariant of the loop of \<open>calculateSlots\<close>: two variables placed so far never
  overlap. While the cursor is a number, the variables of the open slot end at or before
  it; once it is a string, the end of every variable placed at a string offset begins the
  cursor's text.
\<close>

definition cursor_disjoint :: "Cursor \<Rightarrow> bool" where
  "cursor_disjoint st \<longleftrightarrow>
     (\<forall>a \<in> set (placed st). \<forall>b \<in> set (placed st).
        slot a = slot b \<and> overlap a b \<longrightarrow> a = b)
     \<and> (case currentOffset st of
          Num off \<Rightarrow> 0 \<le> off
            \<and> (\<forall>v \<in> set (placed st). slot v \<le> currentSlot st
                  \<and> (\<exists>p n. offset v = Num p \<and> size_v v = Num n
                         \<and> (slot v = currentSlot st \<longrightarrow> p + n \<le> off)))
        | Str S \<Rightarrow>
            (\<forall>v \<in> set (placed st). (\<exists>p. offset v = Num p)
                \<or> (\<exists>q e zs. offset v = Str q \<and> js_add (offset v) (size_v v) = Str e
                       \<and> S = e @ zs))
        | Obj t \<Rightarrow> False)"

text \<open>One step of \<open>new Map(entries)\<close>.\<close>

abbreviation set_step :: "('k \<times> 'v) list \<Rightarrow> 'k \<times> 'v \<Rightarrow> ('k \<times> 'v) list" where
  "set_step \<equiv> (\<lambda>m e. map_set (fst e) (snd e) m)"

text \<open>The number of changes of one severity.\<close>

definition count_severity :: "Severity \<Rightarrow> UpgradeChange list \<Rightarrow> int" where
  "count_severity sev chs = int (length (filter (\<lambda>c. severity c = sev) chs))"

text \<open>
  Declared types by name. A name may occur more than once in a list of variables; its
  declaration is then the last one. \<open>firsts\<close> lists every element once, in the order of
  the first occurrences.
\<close>

fun firsts :: "'a list \<Rightarrow> 'a list" where
  "firsts [] = []"
| "firsts (x # xs) = x # filter (\<lambda>y. y \<noteq> x) (firsts xs)"

definition declared :: "StorageVariable list \<Rightarrow> string \<Rightarrow> StorageVariable option" where
  "declared vs n = find (\<lambda>v. name v = n) (rev vs)"

text \<open>
  The \<open>typeChanged\<close> changes that the two mappings call for: one for every variable name
  of the new mapping that the old mapping declares too, with another type.
\<close>

definition type_changes :: "SlotMapping \<Rightarrow> SlotMapping \<Rightarrow> (ChangeType \<times> StorageVariable \<times> Severity) list" where
  "type_changes m1 m2 =
    concat (map (\<lambda>n.
      case declared (variables m2) n of
        None \<Rightarrow> []
      | Some w2 \<Rightarrow>
          (case declared (variables m1) n of
             None \<Rightarrow> []
           | Some w1 \<Rightarrow> if type w1 \<noteq> type w2 then [(TypeChanged, w2, Critical)] else []))
      (firsts (map name (variables m2))))"

text \<open>
  Hand-built mappings, as the unit tests of \<open>compare\<close> build them (\<open>createMockMapping\<close>
  leaves \<open>packed\<close> out): the two versions of the test of a safe upgrade, a version that
  changes the type of \<open>value\<close>, a mapping whose two variables overlap in slot 0, alone and
  followed by a variable in a fresh slot, and two mappings that both declare the name
  \<open>a\<close> twice.
\<close>

definition mock_var :: "string \<Rightarrow> string \<Rightarrow> int \<Rightarrow> int \<Rightarrow> int \<Rightarrow> StorageVariable" where
  "mock_var n t s off sz =
    \<lparr> name = n, type = t, slot = s, offset = Num off, size_v = Num sz,
      packed = None, isStateVariable = True \<rparr>"

definition mapping_V1 :: SlotMapping where
  "mapping_V1 =
    \<lparr> contractName = ''V1'',
      variables = [mock_var ''owner'' ''address'' 0 0 20, mock_var ''value'' ''uint256'' 1 0 32],
      totalSlots = 2, packedSlots = [] \<rparr>"

definition mapping_V2 :: SlotMapping where
  "mapping_V2 =
    \<lparr> contractName = ''V2'',
      variables = [mock_var ''owner'' ''address'' 0 0 20, mock_var ''value'' ''uint256'' 1 0 32,
                   mock_var ''newVar'' ''uint256'' 2 0 32],
      totalSlots = 3, packedSlots = [] \<rparr>"

definition mapping_retyped :: SlotMapping where
  "mapping_retyped =
    \<lparr> contractName = ''V2'',
      variables = [mock_var ''owner'' ''address'' 0 0 20, mock_var ''value'' ''uint128'' 1 0 16],
      totalSlots = 2, packedSlots = [] \<rparr>"

definition mapping_overlap :: SlotMapping where
  "mapping_overlap =
    \<lparr> contractName = ''Overlap'',
      variables = [mock_var ''a'' ''uint32'' 0 0 4, mock_var ''b'' ''uint32'' 0 2 4],
      totalSlots = 1, packedSlots = [0] \<rparr>"

definition mapping_overlap_next :: SlotMapping where
  "mapping_overlap_next =
    \<lparr> contractName = ''Overlap'',
      variables = [mock_var ''a'' ''uint32'' 0 0 4, mock_var ''b'' ''uint32'' 0 2 4,
                   mock_var ''c'' ''uint256'' 1 0 32],
      totalSlots = 2, packedSlots = [0] \<rparr>"

definition mapping_twice_old :: SlotMapping where
  "mapping_twice_old =
    \<lparr> contractName = ''Twice'',
      variables = [mock_var ''a'' ''uint16'' 0 0 2, mock_var ''a'' ''uint8'' 1 0 1],
      totalSlots = 2, packedSlots = [] \<rparr>"

definition mapping_twice_new :: SlotMapping where
  "mapping_twice_new =
    \<lparr> contractName = ''Twice'',
      variables = [mock_var ''a'' ''uint16'' 0 0 2, mock_var ''a'' ''uint16'' 1 0 2],
      totalSlots = 2, packedSlots = [] \<rparr>"

text \<open>A contract with no state variable, and one whose first variable is a constant.\<close>

definition emptyContract :: ContractAST where
  "emptyContract = \<lparr> name_c = ''Empty'', baseContracts = [], stateVariables = [] \<rparr>"

definition constantContract :: ContractAST where
  "constantContract =
    \<lparr> name_c = ''Token'', baseContracts = [],
      stateVariables =
        [\<lparr> name_sv = ''MAX_SUPPLY'', typeName = ''uint256'', visibility = Public,
            isConstant = True, isImmutable = False, initialValue = Some ''1000000'' \<rparr>,
         declare_var ''owner'' ''address''] \<rparr>"

text \<open>
  An upgrade that appends four variables: \<open>bool a;\<close> becomes
  \<open>bool a; uint256 b; bool c; uint256 d; uint128 e;\<close>.
\<close>

definition flagContract :: ContractAST where
  "flagContract =
    \<lparr> name_c = ''Flags'', baseContracts = [], stateVariables = [declare_var ''a'' ''bool''] \<rparr>"

definition flagContractV2 :: ContractAST where
  "flagContractV2 =
    \<lparr> name_c = ''Flags'', baseContracts = [],
      stateVariables =
        [declare_var ''a'' ''bool'',
         declare_var ''b'' ''uint256'',
         declare_var ''c'' ''bool'',
         declare_var ''d'' ''uint256'',
         declare_var ''e'' ''uint128''] \<rparr>"

section \<open>The layout calculator: properties\<close>

subsection \<open>Maps\<close>

lemma map_of_map_set: "map_of (map_set k v m) k' = (if k' = k then Some v else map_of m k')"
  by (induction m) auto

lemma keys_map_set: "fst ` set (map_set k v m) = insert k (fst ` set m)"
  by (induction m) auto

lemma distinct_map_set: "distinct (map fst m) \<Longrightarrow> distinct (map fst (map_set k v m))"
  by (induction m) (auto simp: keys_map_set)

subsection \<open>Sizes and operators\<close>

lemma sizeMap_range: "(k, n) \<in> set sizeMap \<Longrightarrow> 1 \<le> n \<and> n \<le> 32"
  by (auto simp: sizeMap_def)

lemma object_prototype_members: "(k, v) \<in> set object_prototype \<Longrightarrow> \<exists>t. v = Obj t"
  by (auto simp: object_prototype_def native_function_def)

lemma getTypeSize_cases:
  "(\<exists>n. getTypeSize tn = Num n \<and> 1 \<le> n \<and> n \<le> 32) \<or> (\<exists>t. getTypeSize tn = Obj t)"
  by (auto simp: getTypeSize_def split: option.splits
      dest!: map_of_SomeD sizeMap_range object_prototype_members)

lemma not_inherited_numeric:
  "map_of object_prototype tn = None \<Longrightarrow> \<exists>n. getTypeSize tn = Num n"
  by (auto simp: getTypeSize_def split: option.splits)

lemma js_cmp_simps:
  "js_greater (Num a) (Num b) \<longleftrightarrow> b < a"
  "js_less (Num a) (Num b) \<longleftrightarrow> a < b"
  "js_geq (Num a) (Num b) \<longleftrightarrow> b \<le> a"
  "\<not> js_greater (Str s) (Num b)" "\<not> js_less (Str s) (Num b)" "\<not> js_geq (Str s) (Num b)"
  "\<not> js_greater (Num a) (Str s)" "\<not> js_less (Num a) (Str s)" "\<not> js_geq (Num a) (Str s)"
  by (auto simp: js_greater_def js_less_def js_geq_def)

lemma js_add_Str: "js_add (Str s) y = Str (s @ to_text y)" "js_add x (Obj t) = Str (to_text x @ t)"
  by (cases y; simp) (cases x; simp)

lemma str_less_prefix: "\<not> str_less (e @ zs) e"
  by (induction e) simp_all

lemma js_less_Str: "js_less (Str s) (Str t) \<longleftrightarrow> str_less s t"
  by (simp add: js_less_def)

subsection \<open>The loop invariant\<close>

lemma slot_sum_append:
  "slot_sum (vs @ [v]) s = (if slot v = s then js_add (slot_sum vs s) (size_v v) else slot_sum vs s)"
  by (simp add: slot_sum_def)

lemma slot_sum_above: "\<forall>v \<in> set vs. slot v \<le> c \<Longrightarrow> c < s \<Longrightarrow> slot_sum vs s = Num 0"
  by (induction vs) (auto simp: slot_sum_def)

lemma place_ok:
  assumes "cursor_ok st"
  shows "cursor_ok (place st x)"
proof (cases "currentOffset st")
  case (Num off)
  have above: "slot_sum (placed st) s = Num 0" if "currentSlot st < s" for s
    using assms that slot_sum_above[of "placed st" "currentSlot st" s]
    by (simp add: cursor_ok_def Num)
  have le: "\<not> js_greater (slot_sum (placed st) s) (Num 32)" for s
    using assms by (simp add: cursor_ok_def)
  from getTypeSize_cases[of "typeName x"] show ?thesis
  proof (elim disjE exE conjE)
    fix n assume sz: "getTypeSize (typeName x) = Num n" "1 \<le> n" "n \<le> 32"
    show ?thesis
      using assms sz le
      unfolding cursor_ok_def place_def Let_def
      by (auto simp: Num slot_sum_append above js_cmp_simps)
  next
    fix t assume sz: "getTypeSize (typeName x) = Obj t"
    show ?thesis
      using assms sz le
      unfolding cursor_ok_def place_def Let_def
      by (auto simp: Num slot_sum_append above js_cmp_simps js_add_Str)
  qed
next
  case (Str S)
  have le: "\<not> js_greater (slot_sum (placed st) s) (Num 32)" for s
    using assms by (simp add: cursor_ok_def)
  show ?thesis
    using assms le
    unfolding cursor_ok_def place_def Let_def
    by (auto simp: Str slot_sum_append js_cmp_simps js_add_Str)
next
  case (Obj t)
  then show ?thesis using assms by (simp add: cursor_ok_def)
qed

lemma foldl_place_ok: "cursor_ok st \<Longrightarrow> cursor_ok (foldl place st xs)"
  by (induction xs arbitrary: st) (simp_all add: place_ok)

lemma place_all_ok: "cursor_ok (place_all xs)"
  unfolding place_all_def by (rule foldl_place_ok) (simp add: cursor_ok_def slot_sum_def js_cmp_simps)


lemma variables_calculateSlots:
  "variables (calculateSlots c) = placed (place_all (stateVariables c))"
  by (simp add: calculateSlots_def Let_def)

lemma slot_sum_calculateSlots:
  "\<not> js_greater (slot_sum (variables (calculateSlots c)) s) (Num 32)"
  using place_all_ok[of "stateVariables c"] by (simp add: variables_calculateSlots cursor_ok_def)

text \<open>The variables that the calculator places never overlap one another.\<close>

lemma place_disjoint:
  assumes "cursor_disjoint st"
  shows "cursor_disjoint (place st x)"
proof (cases "currentOffset st")
  case (Num off)
  from getTypeSize_cases[of "typeName x"] show ?thesis
  proof (elim disjE exE conjE)
    fix n assume sz: "getTypeSize (typeName x) = Num n" "1 \<le> n" "n \<le> 32"
    show ?thesis
      using assms sz
      unfolding cursor_disjoint_def place_def Let_def overlap_def
      by (auto simp: Num js_cmp_simps ball_Un)
  next
    fix t assume sz: "getTypeSize (typeName x) = Obj t"
    show ?thesis
      using assms sz
      unfolding cursor_disjoint_def place_def Let_def overlap_def
      by (auto simp: Num js_cmp_simps js_add_Str ball_Un)
  qed
next
  case (Str S)
  define sz where "sz = getTypeSize (typeName x)"
  define v where "v = \<lparr> name = name_sv x, type = typeName x, slot = currentSlot st,
      offset = Str S, size_v = sz, packed = Some False, isStateVariable = True \<rparr>"
  have pl: "place st x = \<lparr> placed = placed st @ [v], currentSlot = currentSlot st,
      currentOffset = Str (S @ to_text sz) \<rparr>"
    by (simp add: place_def Let_def Str sz_def[symmetric] v_def js_add_Str js_cmp_simps)
  have old: "(\<exists>p. offset b = Num p)
      \<or> (\<exists>q e zs. offset b = Str q \<and> js_add (offset b) (size_v b) = Str e \<and> S = e @ zs)"
    if "b \<in> set (placed st)" for b
    using assms that by (simp add: cursor_disjoint_def Str)
  have no1: "\<not> overlap v b" if "b \<in> set (placed st)" for b
    using old[OF that]
    by (auto simp: overlap_def v_def js_add_Str js_cmp_simps js_less_Str str_less_prefix)
  have no2: "\<not> overlap b v" if "b \<in> set (placed st)" for b
    using no1[OF that] by (auto simp: overlap_def)
  have pairs: "\<forall>a \<in> set (placed st). \<forall>b \<in> set (placed st).
        slot a = slot b \<and> overlap a b \<longrightarrow> a = b"
    using assms by (simp add: cursor_disjoint_def)
  have P1: "\<forall>a \<in> set (placed st @ [v]). \<forall>b \<in> set (placed st @ [v]).
        slot a = slot b \<and> overlap a b \<longrightarrow> a = b"
    using pairs no1 no2 by auto
  have "(\<exists>p. offset b = Num p)
      \<or> (\<exists>q e zs. offset b = Str q \<and> js_add (offset b) (size_v b) = Str e
            \<and> S @ to_text sz = e @ zs)"
    if "b \<in> set (placed st @ [v])" for b
  proof (cases "b = v")
    case True
    then show ?thesis by (simp add: v_def js_add_Str)
  next
    case False
    then have "b \<in> set (placed st)" using that by simp
    from old[OF this] show ?thesis by auto
  qed
  then have P2: "\<forall>b \<in> set (placed st @ [v]). (\<exists>p. offset b = Num p)
      \<or> (\<exists>q e zs. offset b = Str q \<and> js_add (offset b) (size_v b) = Str e
            \<and> S @ to_text sz = e @ zs)"
    by blast
  show ?thesis
    unfolding pl cursor_disjoint_def using P1 P2 by simp
next
  case (Obj t)
  then show ?thesis using assms by (simp add: cursor_disjoint_def)
qed


lemma foldl_place_disjoint: "cursor_disjoint st \<Longrightarrow> cursor_disjoint (foldl place st xs)"
  by (induction xs arbitrary: st) (simp_all add: place_disjoint)

lemma self_disjoint_calculateSlots: "self_disjoint (variables (calculateSlots c))"
proof -
  have "cursor_disjoint (place_all (stateVariables c))"
    unfolding place_all_def by (rule foldl_place_disjoint) (simp add: cursor_disjoint_def)
  then show ?thesis
    by (auto simp: variables_calculateSlots cursor_disjoint_def self_disjoint_def
        same_identity_def)
qed

subsection \<open>Contracts whose sizes are all numbers\<close>

lemma place_numeric:
  assumes "cursor_numeric st" and "getTypeSize (typeName x) = Num n"
  shows "cursor_numeric (place st x)"
proof -
  have "1 \<le> n" "n \<le> 32"
    using getTypeSize_cases[of "typeName x"] assms(2) by auto
  then show ?thesis
    using assms
    unfolding cursor_numeric_def place_def Let_def
    by (auto simp: js_cmp_simps)
qed

lemma foldl_place_numeric:
  "cursor_numeric st \<Longrightarrow> numeric_sizes xs \<Longrightarrow> cursor_numeric (foldl place st xs)"
proof (induction xs arbitrary: st)
  case Nil
  then show ?case by simp
next
  case (Cons x xs)
  from Cons.prems(2) obtain n where "getTypeSize (typeName x) = Num n"
    by (auto simp: numeric_sizes_def)
  with Cons.prems(1) have "cursor_numeric (place st x)"
    by (rule place_numeric)
  moreover have "numeric_sizes xs"
    using Cons.prems(2) by (simp add: numeric_sizes_def)
  ultimately show ?case
    using Cons.IH by simp
qed

lemma placed_numeric:
  assumes "numeric_sizes (stateVariables c)" and "v \<in> set (variables (calculateSlots c))"
  shows "\<exists>n. size_v v = Num n \<and> packed v = Some (n < 32)"
proof -
  have "cursor_numeric (place_all (stateVariables c))"
    unfolding place_all_def using assms(1)
    by (intro foldl_place_numeric) (simp_all add: cursor_numeric_def)
  then show ?thesis
    using assms(2) by (simp add: variables_calculateSlots cursor_numeric_def)
qed

lemma numeric_sum:
  "\<forall>v \<in> set vs. \<exists>n. size_v v = Num n \<Longrightarrow>
     foldl (\<lambda>acc v. js_add acc (size_v v)) (Num a) vs
       = Num (a + sum_list (map (\<lambda>v. case size_v v of Num n \<Rightarrow> n | _ \<Rightarrow> 0) vs))"
  by (induction vs arbitrary: a) auto

lemma slot_sum_numeric:
  assumes "numeric_sizes (stateVariables c)"
  shows "\<exists>k. slot_sum (variables (calculateSlots c)) s = Num k \<and> k \<le> 32"
proof -
  have "\<forall>v \<in> set (filter (\<lambda>v. slot v = s) (variables (calculateSlots c))). \<exists>n. size_v v = Num n"
    using placed_numeric[OF assms] by auto
  from numeric_sum[OF this, of 0] obtain k
    where k: "slot_sum (variables (calculateSlots c)) s = Num k"
    by (auto simp: slot_sum_def)
  with slot_sum_calculateSlots[of c s] show ?thesis
    by (simp add: js_cmp_simps)
qed

subsection \<open>The example layout\<close>

lemma mock_layout:
  "calculateSlots mockContract =
    \<lparr> contractName = ''MockContract'',
      variables =
        [\<lparr> name = ''value'', type = ''uint256'', slot = 0, offset = Num 0, size_v = Num 32,
            packed = Some False, isStateVariable = True \<rparr>,
         \<lparr> name = ''owner'', type = ''address'', slot = 1, offset = Num 0, size_v = Num 20,
            packed = Some True, isStateVariable = True \<rparr>,
         \<lparr> name = ''isActive'', type = ''bool'', slot = 1, offset = Num 20, size_v = Num 1,
            packed = Some True, isStateVariable = True \<rparr>,
         \<lparr> name = ''smallNumber'', type = ''uint8'', slot = 1, offset = Num 21, size_v = Num 1,
            packed = Some True, isStateVariable = True \<rparr>],
      totalSlots = 2, packedSlots = [1] \<rparr>"
  by code_simp

text \<open>
  C1. The contract that declares, in this order, \<open>uint256 value; address owner; bool
  isActive; uint8 smallNumber;\<close> gets \<open>value\<close> at slot 0, offset 0, size 32; \<open>owner\<close> at
  slot 1, offset 0, size 20; \<open>isActive\<close> at slot 1, offset 20, size 1; \<open>smallNumber\<close> at
  slot 1, offset 21, size 1; two slots in total, and slot 1 as the only packed slot.
\<close>

theorem example_layout:
  "map (\<lambda>v. (name v, slot v, offset v, size_v v)) (variables (calculateSlots mockContract)) =
     [(''value'', 0, Num 0, Num 32), (''owner'', 1, Num 0, Num 20),
      (''isActive'', 1, Num 20, Num 1), (''smallNumber'', 1, Num 21, Num 1)]
   \<and> totalSlots (calculateSlots mockContract) = 2
   \<and> packedSlots (calculateSlots mockContract) = [1]"
  by (simp add: mock_layout)

theorem example_layout_witness:
  "totalSlots (calculateSlots mockContract) = 2
   \<and> packedSlots (calculateSlots mockContract) = [1]"
  by (rule conjunct2 [OF example_layout])

subsection \<open>A type name that every object inherits\<close>

text \<open>
  C2, where the code departs from it. For the contract \<open>toString x; uint256 y; uint8 z;\<close>
  the size of \<open>x\<close> is the function that \<open>sizeMap[''toString'']\<close> inherits, the cursor
  becomes a string, and no comparison with 32 holds any more: \<open>y\<close> (32 bytes) and \<open>z\<close>
  (1 byte) are both put in slot 0 next to \<open>x\<close>, 33 bytes and more in one slot. The sizes of
  the slot add up to a string, not to a number of at most 32.
\<close>

theorem slot_sum_inherited:
  "map (\<lambda>v. (name v, slot v, size_v v)) (variables (calculateSlots inheritedContract)) =
     [(''x'', 0, Obj ''function toString() { [native code] }''),
      (''y'', 0, Num 32), (''z'', 0, Num 1)]
   \<and> slot_sum (variables (calculateSlots inheritedContract)) 0 =
       Str ''0function toString() { [native code] }321''"
  by code_simp

theorem slot_sum_inherited_witness:
  "slot_sum (variables (calculateSlots inheritedContract)) 0 =
     Str ''0function toString() { [native code] }321''"
  by (rule conjunct2 [OF slot_sum_inherited])

text \<open>
  C10, where the code departs from it. For the contract \<open>toString x; uint8 z;\<close> the
  variable \<open>z\<close> has size 1 and sits at a string offset, so neither \<open>offset > 0\<close> nor
  \<open>offset + size < 32\<close> holds: its \<open>packed\<close> flag is false although it is shorter than a
  slot.
\<close>

theorem packed_inherited:
  "map (\<lambda>v. (name v, size_v v, packed v)) (variables (calculateSlots inheritedPair)) =
     [(''x'', Obj ''function toString() { [native code] }'', Some False),
      (''z'', Num 1, Some False)]"
  by code_simp

theorem packed_inherited_witness:
  "map (\<lambda>v. (size_v v, packed v)) (variables (calculateSlots inheritedPair)) ! 1
     = (Num 1, Some False)"
  using packed_inherited by code_simp

section \<open>The single-mapping detector on calculator output\<close>

lemma map_of_group_push:
  "map_of (group_push g v) s =
     (if slot v = s then Some ((case map_of g s of None \<Rightarrow> [] | Some l \<Rightarrow> l) @ [v])
      else map_of g s)"
  by (auto simp: group_push_def map_get_def map_of_map_set split: option.splits)

lemma map_of_groups:
  "map_of (foldl group_push g vs) s =
     (if filter (\<lambda>v. slot v = s) vs = [] then map_of g s
      else Some ((case map_of g s of None \<Rightarrow> [] | Some l \<Rightarrow> l) @ filter (\<lambda>v. slot v = s) vs))"
  by (induction vs arbitrary: g) (auto simp: map_of_group_push)

lemma distinct_group_push: "distinct (map fst g) \<Longrightarrow> distinct (map fst (group_push g v))"
  by (auto simp: group_push_def distinct_map_set split: option.splits)

lemma distinct_groups: "distinct (map fst g) \<Longrightarrow> distinct (map fst (foldl group_push g vs))"
  by (induction vs arbitrary: g) (simp_all add: distinct_group_push)

text \<open>Every group is the list of the variables of its slot, in declaration order.\<close>

lemma group_entry:
  assumes "(s, l) \<in> set (foldl group_push [] vs)"
  shows "l = filter (\<lambda>v. slot v = s) vs"
proof -
  have "distinct (map fst (foldl group_push [] vs))"
    by (rule distinct_groups) simp
  with assms have "map_of (foldl group_push [] vs) s = Some l"
    by simp
  then show ?thesis
    by (simp add: map_of_groups split: if_splits)
qed

lemma occupants_occupancy:
  "occupants (occupancy m) s = filter (\<lambda>v. slot v = s) (variables m)"
  by (simp add: occupants_def occupancy_def map_get_def map_of_groups)

lemma detect_group_calc:
  assumes "e \<in> set (groupVariablesBySlot (variables (calculateSlots c)))"
  shows "detect_group e = []"
proof -
  obtain s l where e: "e = (s, l)"
    by (cases e)
  have l: "l = filter (\<lambda>v. slot v = s) (variables (calculateSlots c))"
    using assms group_entry unfolding e groupVariablesBySlot_def by blast
  have "foldl (\<lambda>acc v. js_add acc (size_v v)) (Num 0) l
      = slot_sum (variables (calculateSlots c)) s"
    by (simp add: l slot_sum_def)
  then have "\<not> js_greater (foldl (\<lambda>acc v. js_add acc (size_v v)) (Num 0) l) (Num 32)"
    using slot_sum_calculateSlots by simp
  then show ?thesis
    by (simp add: detect_group_def e analyzeSlotCollision_def Let_def)
qed

text \<open>
  C8. Whatever the contract, the single-mapping detector finds nothing in the mapping
  that the layout calculator produces: \<open>detect (calculateSlots contract)\<close> is the empty
  list, since the sizes of a slot's variables, added up as the detector adds them, never
  give a number above 32.
\<close>

theorem detect_calculateSlots_empty: "detect (calculateSlots c) = []"
  by (simp add: detect_def detect_group_calc)

theorem detect_calculateSlots_empty_witness: "detect (calculateSlots mockContract) = []"
  by (rule detect_calculateSlots_empty)

section \<open>The slot diff engine: properties\<close>

subsection \<open>Maps built from a list of entries\<close>

lemma distinct_set_all: "distinct (map fst m) \<Longrightarrow> distinct (map fst (foldl set_step m es))"
  by (induction es arbitrary: m) (simp_all add: distinct_map_set)

lemma keys_set_all: "fst ` set (foldl set_step m es) = fst ` set m \<union> fst ` set es"
  by (induction es arbitrary: m) (auto simp: keys_map_set)

lemma distinct_new_Map: "distinct (map fst (new_Map es))"
  unfolding new_Map_def by (rule distinct_set_all) simp

lemma keys_new_Map: "fst ` set (new_Map es) = fst ` set es"
  unfolding new_Map_def by (simp add: keys_set_all)

lemma map_has_iff: "map_has m k \<longleftrightarrow> k \<in> fst ` set m"
  by (simp add: map_has_def map_of_eq_None_iff)

lemma map_get_entry:
  "distinct (map fst m) \<Longrightarrow> e \<in> set m \<Longrightarrow> map_get m (fst e) = Some (snd e)"
  by (cases e) (simp add: map_get_def)

lemma map_get_append_entry:
  "distinct (map fst k) \<Longrightarrow> e \<in> set k \<Longrightarrow> map_get (k @ x) (fst e) = Some (snd e)"
  by (cases e) (simp add: map_get_def map_add_Some_iff)

lemma map_set_fresh: "k \<notin> fst ` set m \<Longrightarrow> map_set k v m = m @ [(k, v)]"
  by (induction m) auto

text \<open>Entries with fresh, pairwise distinct keys are appended in their order.\<close>

lemma set_all_fresh:
  "distinct (map fst es) \<Longrightarrow> fst ` set es \<inter> fst ` set m = {} \<Longrightarrow> foldl set_step m es = m @ es"
proof (induction es arbitrary: m)
  case Nil
  then show ?case by simp
next
  case (Cons e es)
  have "map_set (fst e) (snd e) m = m @ [e]"
    using Cons.prems(2) by (simp add: map_set_fresh)
  moreover have "foldl set_step (m @ [e]) es = (m @ [e]) @ es"
    using Cons.prems by (intro Cons.IH) auto
  ultimately show ?case by simp
qed

lemma new_Map_distinct: "distinct (map fst es) \<Longrightarrow> new_Map es = es"
  unfolding new_Map_def using set_all_fresh [of es "[]"] by simp

lemma distinct_key_map: "distinct (map fst (key_map m))"
  by (simp add: key_map_def distinct_new_Map)

lemma keys_key_map: "fst ` set (key_map m) = byKey ` set (variables m)"
  by (simp add: key_map_def keys_new_Map image_image)

subsection \<open>The classification\<close>

lemma moved_of_same: "distinct (map fst k) \<Longrightarrow> moved_of k k = []"
  by (auto simp: moved_of_def map_get_entry)

lemma removed_of_same: "removed_of k k = []"
  by (auto simp: removed_of_def map_has_iff filter_empty_conv)

lemma added_of_same: "added_of k k = []"
  by (auto simp: added_of_def map_has_iff filter_empty_conv)

lemma moved_of_extend: "distinct (map fst k) \<Longrightarrow> moved_of k (k @ x) = []"
  by (auto simp: moved_of_def map_get_append_entry)

lemma added_of_extend:
  assumes "fst ` set x \<inter> fst ` set k = {}"
  shows "added_of k (k @ x) = map snd x"
proof -
  have "\<forall>e \<in> set x. fst e \<notin> fst ` set k"
    using assms by blast
  then have "filter (\<lambda>e. fst e \<notin> fst ` set k) x = x"
    by (simp add: filter_id_conv)
  moreover have "filter (\<lambda>e. fst e \<notin> fst ` set k) k = []"
    by (simp add: filter_empty_conv)
  ultimately show ?thesis
    by (simp add: added_of_def map_has_iff)
qed

lemma moved_compare: "moved (compare m1 m2) = moved_of (key_map m1) (key_map m2)"
  by (simp add: compare_def Let_def)

lemma added_compare: "added (compare m1 m2) = added_of (key_map m1) (key_map m2)"
  by (simp add: compare_def Let_def)

lemma removed_compare: "removed (compare m1 m2) = removed_of (key_map m1) (key_map m2)"
  by (simp add: compare_def Let_def)

lemma safe_compare:
  "safe (compare m1 m2) \<longleftrightarrow> moved (compare m1 m2) = [] \<and> collisions (compare m1 m2) = []"
  by (simp add: compare_def Let_def)

lemma moved_self: "moved (compare m m) = []"
  by (simp add: moved_compare moved_of_same distinct_key_map)

text \<open>
  When the trailing variables of the new version bring fresh, pairwise distinct keys, its
  key map is the old one followed by their entries.
\<close>

lemma key_map_append:
  assumes "variables m2 = variables m1 @ extra"
    and "distinct (map byKey extra)"
    and "byKey ` set extra \<inter> byKey ` set (variables m1) = {}"
  shows "key_map m2 = key_map m1 @ map (\<lambda>v. (byKey v, v)) extra"
proof -
  let ?es1 = "map (\<lambda>v. (byKey v, v)) (variables m1)"
  let ?es2 = "map (\<lambda>v. (byKey v, v)) extra"
  have "key_map m2 = foldl set_step (new_Map ?es1) ?es2"
    by (simp add: key_map_def new_Map_def assms(1))
  also have "\<dots> = new_Map ?es1 @ ?es2"
  proof (rule set_all_fresh)
    show "distinct (map fst ?es2)"
      using assms(2) by (simp add: comp_def)
    show "fst ` set ?es2 \<inter> fst ` set (new_Map ?es1) = {}"
      using assms(3) by (simp add: keys_new_Map image_image)
  qed
  finally show ?thesis
    by (simp add: key_map_def)
qed

subsection \<open>The overlap scan\<close>

lemma check_pair_Nil_iff:
  "check_pair [] s a b = [] \<longleftrightarrow> (overlap a b \<longrightarrow> same_identity a b)"
  by (auto simp: check_pair_def overlap_def same_identity_def Let_def)

lemma set_new_Set_aux:
  "set (foldl (\<lambda>s x. if x \<in> set s then s else s @ [x]) acc xs) = set acc \<union> set xs"
  by (induction xs arbitrary: acc) auto

lemma set_new_Set: "set (new_Set xs) = set xs"
  by (simp add: new_Set_def set_new_Set_aux)

lemma set_Object_keys: "set (Object_keys obj) = fst ` set obj"
  by (auto simp: Object_keys_def)

lemma keys_occupancy: "fst ` set (occupancy m) = slot ` set (variables m)"
proof -
  have "fst ` set (occupancy m) = dom (map_of (occupancy m))"
    by (simp add: dom_map_of_conv_image_fst)
  also have "\<dots> = slot ` set (variables m)"
    by (auto simp: occupancy_def map_of_groups dom_def filter_empty_conv split: if_splits)
  finally show ?thesis .
qed

lemma slots_compare:
  "set (new_Set (Object_keys (occupancy m1) @ Object_keys (occupancy m2)))
     = slot ` set (variables m1) \<union> slot ` set (variables m2)"
  by (simp add: set_new_Set set_Object_keys keys_occupancy)

text \<open>The scan visits, slot by slot, every old variable of the slot with every new one.\<close>

lemma collisions_compare:
  "collisions (compare m1 m2) =
     concat (map (\<lambda>s.
       concat (map (\<lambda>a.
         concat (map (\<lambda>b. check_pair (map byKey (moved (compare m1 m2))) s a b)
           (filter (\<lambda>v. slot v = s) (variables m2))))
         (filter (\<lambda>v. slot v = s) (variables m1))))
       (new_Set (Object_keys (occupancy m1) @ Object_keys (occupancy m2))))"
  by (simp add: compare_def Let_def occupants_occupancy)

lemma collisions_self: "collisions (compare m m) = [] \<longleftrightarrow> self_disjoint (variables m)"
proof
  assume none: "collisions (compare m m) = []"
  show "self_disjoint (variables m)"
    unfolding self_disjoint_def
  proof (intro ballI impI)
    fix a b
    assume a: "a \<in> set (variables m)" and b: "b \<in> set (variables m)"
      and ov: "slot a = slot b \<and> overlap a b"
    have s: "slot a \<in> set (new_Set (Object_keys (occupancy m) @ Object_keys (occupancy m)))"
      using a by (simp add: slots_compare)
    have "check_pair [] (slot a) a b = []"
      using none s a b ov by (simp add: collisions_compare moved_self)
    then show "same_identity a b"
      using ov by (simp add: check_pair_Nil_iff)
  qed
next
  assume sd: "self_disjoint (variables m)"
  have "check_pair [] s a b = []"
    if "a \<in> set (variables m)" "b \<in> set (variables m)" "slot a = s" "slot b = s" for s a b
    using sd that by (auto simp: self_disjoint_def check_pair_Nil_iff)
  then show "collisions (compare m m) = []"
    by (simp add: collisions_compare moved_self)
qed

lemma self_disjoint_V1: "self_disjoint (variables mapping_V1)"
  by (simp add: self_disjoint_def mapping_V1_def mock_var_def overlap_def same_identity_def
      js_cmp_simps)

text \<open>
  C3, as amended. For every mapping \<open>M\<close>, \<open>compare M M\<close> reports no moved, no added and
  no removed variable. Its collisions are empty, and \<open>safe\<close> is true, exactly when no two
  variables of \<open>M\<close> that share a slot and overlap there differ in name or type; every
  mapping that \<open>calculateSlots\<close> produces is of that kind. (As stated, for every mapping
  whatsoever, the claim fails: the scan pairs the variables of a slot across the two
  arguments, so two different variables that overlap inside \<open>M\<close> collide with each
  other.)
\<close>

theorem compare_self:
  "moved (compare m m) = [] \<and> added (compare m m) = [] \<and> removed (compare m m) = []
   \<and> (collisions (compare m m) = [] \<longleftrightarrow> self_disjoint (variables m))
   \<and> (safe (compare m m) \<longleftrightarrow> self_disjoint (variables m))
   \<and> self_disjoint (variables (calculateSlots c))"
  by (simp add: moved_self added_compare added_of_same removed_compare removed_of_same
      collisions_self safe_compare self_disjoint_calculateSlots)

theorem compare_self_witness:
  "self_disjoint (variables mapping_V1)
   \<and> safe (compare mapping_V1 mapping_V1)
   \<and> collisions (compare mapping_V1 mapping_V1) = []
   \<and> moved (compare mapping_V1 mapping_V1) = []
   \<and> added (compare mapping_V1 mapping_V1) = []
   \<and> removed (compare mapping_V1 mapping_V1) = []
   \<and> safe (compare (calculateSlots mockContract) (calculateSlots mockContract))"
  using compare_self [of mapping_V1 mockContract]
    compare_self [of "calculateSlots mockContract" mockContract] self_disjoint_V1
  by simp

theorem compare_self_counterexample:
  "safe (compare mapping_overlap mapping_overlap) = False
   \<and> length (collisions (compare mapping_overlap mapping_overlap)) = 2"
  by code_simp

text \<open>
  C4, as amended. Let the variables of \<open>v2\<close> be those of \<open>v1\<close> followed by trailing
  variables that sit in slots no variable of \<open>v1\<close> occupies. If, besides, no two variables
  of \<open>v1\<close> that share a slot and overlap there differ in name or type, and the trailing
  variables have pairwise distinct \<open>name|type\<close> keys that no variable of \<open>v1\<close> has, then
  \<open>compare v1 v2\<close> is safe, with nothing moved, no collision, and exactly the trailing
  variables, in their order, as added. (Without the two extra conditions the claim fails.)
\<close>

theorem append_only_safe:
  assumes ext: "variables m2 = variables m1 @ extra"
    and fresh_slots: "slot ` set extra \<inter> slot ` set (variables m1) = {}"
    and sd: "self_disjoint (variables m1)"
    and dk: "distinct (map byKey extra)"
    and fk: "byKey ` set extra \<inter> byKey ` set (variables m1) = {}"
  shows "safe (compare m1 m2) \<and> moved (compare m1 m2) = [] \<and> collisions (compare m1 m2) = []
         \<and> added (compare m1 m2) = extra"
proof -
  have km: "key_map m2 = key_map m1 @ map (\<lambda>v. (byKey v, v)) extra"
    using ext dk fk by (rule key_map_append)
  have mv: "moved (compare m1 m2) = []"
    by (simp add: moved_compare km moved_of_extend distinct_key_map)
  have "fst ` set (map (\<lambda>v. (byKey v, v)) extra) \<inter> fst ` set (key_map m1) = {}"
    using fk by (simp add: keys_key_map image_image)
  then have ad: "added (compare m1 m2) = extra"
    by (simp add: added_compare km added_of_extend comp_def)
  have "check_pair [] s a b = []"
    if "a \<in> set (variables m1)" "b \<in> set (variables m2)" "slot a = s" "slot b = s" for s a b
  proof -
    have "b \<in> set (variables m1)"
      using that fresh_slots ext by auto
    then show ?thesis
      using sd that by (auto simp: self_disjoint_def check_pair_Nil_iff)
  qed
  then have cs: "collisions (compare m1 m2) = []"
    by (simp add: collisions_compare mv)
  show ?thesis
    by (simp add: safe_compare mv cs ad)
qed

theorem append_only_safe_witness:
  "variables mapping_V2 = variables mapping_V1 @ [mock_var ''newVar'' ''uint256'' 2 0 32]
   \<and> safe (compare mapping_V1 mapping_V2)
   \<and> moved (compare mapping_V1 mapping_V2) = []
   \<and> collisions (compare mapping_V1 mapping_V2) = []
   \<and> added (compare mapping_V1 mapping_V2) = [mock_var ''newVar'' ''uint256'' 2 0 32]"
proof -
  let ?extra = "[mock_var ''newVar'' ''uint256'' 2 0 32]"
  have h1: "variables mapping_V2 = variables mapping_V1 @ ?extra"
    by (simp add: mapping_V1_def mapping_V2_def)
  have h2: "slot ` set ?extra \<inter> slot ` set (variables mapping_V1) = {}"
    by (simp add: mapping_V1_def mock_var_def)
  have h4: "distinct (map byKey ?extra)"
    by simp
  have h5: "byKey ` set ?extra \<inter> byKey ` set (variables mapping_V1) = {}"
    by (simp add: mapping_V1_def mock_var_def byKey_def)
  from append_only_safe [OF h1 h2 self_disjoint_V1 h4 h5] h1 show ?thesis
    by simp
qed

theorem append_only_counterexample:
  "variables mapping_overlap_next = variables mapping_overlap @ [mock_var ''c'' ''uint256'' 1 0 32]
   \<and> slot ` set [mock_var ''c'' ''uint256'' 1 0 32] \<inter> slot ` set (variables mapping_overlap) = {}
   \<and> safe (compare mapping_overlap mapping_overlap_next) = False
   \<and> length (collisions (compare mapping_overlap mapping_overlap_next)) = 2"
proof -
  have "variables mapping_overlap_next = variables mapping_overlap @ [mock_var ''c'' ''uint256'' 1 0 32]"
    by (simp add: mapping_overlap_def mapping_overlap_next_def)
  moreover have "slot ` set [mock_var ''c'' ''uint256'' 1 0 32] \<inter> slot ` set (variables mapping_overlap) = {}"
    by (simp add: mapping_overlap_def mock_var_def)
  moreover have "safe (compare mapping_overlap mapping_overlap_next) = False"
    by code_simp
  moreover have "length (collisions (compare mapping_overlap mapping_overlap_next)) = 2"
    by code_simp
  ultimately show ?thesis
    by simp
qed

section \<open>The upgrade analyzer: properties\<close>

subsection \<open>The list of changes\<close>

lemma push_each_eq: "push_each body acc xs = acc @ concat (map body xs)"
  unfolding push_each_def by (induction xs arbitrary: acc) simp_all

lemma name_map_distinct:
  "distinct (map name (variables m)) \<Longrightarrow> name_map m = map (\<lambda>v. (name v, v)) (variables m)"
  unfolding name_map_def by (rule new_Map_distinct) (simp add: comp_def)

lemma identifyChanges_eq:
  "identifyChanges m1 m2 r =
     map collision_change (collisions r) @ map (moved_change (key_map m1)) (moved r)
     @ map removed_change (removed r) @ map added_change (added r)
     @ concat (map (type_change (name_map m1)) (name_map m2))"
  by (simp add: identifyChanges_def Let_def push_each_eq concat_map_singleton)

text \<open>
  With unique names in the old version, looking a name up in its name map finds the one
  old variable of that name, if any.
\<close>

lemma type_change_lookup:
  assumes "distinct (map name vs)"
  shows "map (\<lambda>c. (type_uc c, variable c, severity c))
           (type_change (map (\<lambda>v. (name v, v)) vs) (name w2, w2))
         = [(TypeChanged, w2, Critical). w1 \<leftarrow> vs, name w1 = name w2 \<and> type w1 \<noteq> type w2]"
  using assms
proof (induction vs)
  case Nil
  then show ?case
    by (simp add: type_change_def map_get_def)
next
  case (Cons v vs)
  show ?case
  proof (cases "name v = name w2")
    case True
    then have "name w2 \<notin> name ` set vs"
      using Cons.prems by simp
    then have "\<forall>w1 \<in> set vs. name w1 \<noteq> name w2"
      by (metis imageI)
    then have "[(TypeChanged, w2, Critical). w1 \<leftarrow> vs, name w1 = name w2 \<and> type w1 \<noteq> type w2] = []"
      by (induction vs) auto
    then show ?thesis
      using True by (simp add: type_change_def map_get_def)
  next
    case False
    then show ?thesis
      using Cons by (simp add: type_change_def map_get_def)
  qed
qed

lemma change_fields:
  "type_uc (collision_change c) = CollisionChange" "variable (collision_change c) = v2_c c"
  "severity (collision_change c) = Critical"
  "type_uc (moved_change k v) = Moved" "variable (moved_change k v) = v"
  "severity (moved_change k v) = Critical"
  "type_uc (removed_change v) = Removed" "variable (removed_change v) = v"
  "severity (removed_change v) = Warning"
  "type_uc (added_change v) = Added" "variable (added_change v) = v"
  "severity (added_change v) = Safe"
  by (simp_all add: collision_change_def moved_change_def removed_change_def added_change_def
      Let_def)

lemma changes_analyze: "changes (analyze m1 m2) = identifyChanges m1 m2 (compare m1 m2)"
  by (simp add: analyze_def Let_def)

text \<open>
  The name maps: the keys are the names in the order of their first occurrences, and a
  name maps to its last declaration.
\<close>

lemma firsts_snoc: "firsts (xs @ [x]) = (if x \<in> set xs then firsts xs else firsts xs @ [x])"
  by (induction xs) auto

lemma keys_map_set_list:
  "map fst (map_set k v m) = (if k \<in> fst ` set m then map fst m else map fst m @ [k])"
  by (induction m) auto

lemma new_Map_snoc: "new_Map (es @ [e]) = map_set (fst e) (snd e) (new_Map es)"
  by (simp add: new_Map_def)

lemma keys_new_Map_firsts: "map fst (new_Map es) = firsts (map fst es)"
  by (induction es rule: rev_induct)
    (simp_all add: new_Map_def[of "[]"] new_Map_snoc keys_map_set_list keys_new_Map firsts_snoc)

lemma map_of_new_Map: "map_of (new_Map es) k = map_of (rev es) k"
  by (induction es rule: rev_induct)
    (simp_all add: new_Map_def[of "[]"] new_Map_snoc map_of_map_set)

lemma map_of_named: "map_of (map (\<lambda>v. (name v, v)) vs) n = find (\<lambda>v. name v = n) vs"
  by (induction vs) auto

lemma map_get_name_map: "map_get (name_map m) n = declared (variables m) n"
  by (simp add: map_get_def name_map_def map_of_new_Map declared_def rev_map map_of_named)

lemma keys_name_map: "map fst (name_map m) = firsts (map name (variables m))"
  by (simp add: name_map_def keys_new_Map_firsts comp_def)

lemma distinct_name_map: "distinct (map fst (name_map m))"
  by (simp add: name_map_def distinct_new_Map)

lemma map_by_keys:
  "distinct (map fst m) \<Longrightarrow>
     map f m = map (\<lambda>k. case map_of m k of None \<Rightarrow> d | Some v \<Rightarrow> f (k, v)) (map fst m)"
proof (induction m)
  case Nil
  then show ?case by simp
next
  case (Cons e m)
  obtain k v where e: "e = (k, v)" by (cases e)
  have "map (\<lambda>k'. case map_of (e # m) k' of None \<Rightarrow> d | Some v \<Rightarrow> f (k', v)) (map fst m)
      = map (\<lambda>k'. case map_of m k' of None \<Rightarrow> d | Some v \<Rightarrow> f (k', v)) (map fst m)"
    using Cons.prems by (intro map_cong) (auto simp: e)
  then show ?case
    using Cons by (simp add: e)
qed

lemma type_change_summary:
  "map (\<lambda>c. (type_uc c, variable c, severity c)) (type_change (name_map m1) (n, w2)) =
     (case declared (variables m1) n of
        None \<Rightarrow> []
      | Some w1 \<Rightarrow> if type w1 \<noteq> type w2 then [(TypeChanged, w2, Critical)] else [])"
  by (simp add: type_change_def map_get_name_map split: option.splits)

lemma type_changes_of_loop:
  "map (\<lambda>c. (type_uc c, variable c, severity c))
     (concat (map (type_change (name_map m1)) (name_map m2))) = type_changes m1 m2"
proof -
  let ?sum = "map (\<lambda>c. (type_uc c, variable c, severity c))"
  have "map (type_change (name_map m1)) (name_map m2)
      = map (\<lambda>n. case map_of (name_map m2) n of None \<Rightarrow> []
                   | Some w2 \<Rightarrow> type_change (name_map m1) (n, w2))
          (firsts (map name (variables m2)))"
    using map_by_keys[OF distinct_name_map, of "type_change (name_map m1)" m2 "[]"]
    by (simp add: keys_name_map)
  moreover have "?sum (case map_of (name_map m2) n of None \<Rightarrow> []
                   | Some w2 \<Rightarrow> type_change (name_map m1) (n, w2))
      = (case declared (variables m2) n of
           None \<Rightarrow> []
         | Some w2 \<Rightarrow>
            (case declared (variables m1) n of
               None \<Rightarrow> []
             | Some w1 \<Rightarrow> if type w1 \<noteq> type w2 then [(TypeChanged, w2, Critical)] else []))" for n
    using map_get_name_map[of m2 n]
    by (simp add: map_get_def type_change_summary split: option.splits)
  ultimately show ?thesis
    by (simp add: type_changes_def map_concat comp_def)
qed

text \<open>
  C5. For every pair of mappings, the changes of \<open>analyze v1 v2\<close> are, in this order: one
  \<open>collision\<close> change of severity critical per collision of the diff, one \<open>moved\<close> change
  of severity critical per moved variable, one \<open>removed\<close> change of severity warning per
  removed variable, one \<open>added\<close> change of severity safe per added variable, and, for
  every variable name present in both mappings whose declared type differs, one
  \<open>typeChanged\<close> change of severity critical. A name is taken once, and where a mapping
  declares it more than once its last declaration counts; with unique names these are
  the pairs of an old and a new variable of the same name and different types.
\<close>

theorem changes_of_analyze:
  "map (\<lambda>c. (type_uc c, variable c, severity c)) (changes (analyze m1 m2)) =
       map (\<lambda>c. (CollisionChange, v2_c c, Critical)) (collisions (compare m1 m2))
     @ map (\<lambda>v. (Moved, v, Critical)) (moved (compare m1 m2))
     @ map (\<lambda>v. (Removed, v, Warning)) (removed (compare m1 m2))
     @ map (\<lambda>v. (Added, v, Safe)) (added (compare m1 m2))
     @ type_changes m1 m2
   \<and> (distinct (map name (variables m1)) \<longrightarrow> distinct (map name (variables m2)) \<longrightarrow>
        type_changes m1 m2
        = [(TypeChanged, w2, Critical).
            w2 \<leftarrow> variables m2, w1 \<leftarrow> variables m1, name w1 = name w2 \<and> type w1 \<noteq> type w2])"
proof (intro conjI impI)
  show "map (\<lambda>c. (type_uc c, variable c, severity c)) (changes (analyze m1 m2)) =
       map (\<lambda>c. (CollisionChange, v2_c c, Critical)) (collisions (compare m1 m2))
     @ map (\<lambda>v. (Moved, v, Critical)) (moved (compare m1 m2))
     @ map (\<lambda>v. (Removed, v, Warning)) (removed (compare m1 m2))
     @ map (\<lambda>v. (Added, v, Safe)) (added (compare m1 m2))
     @ type_changes m1 m2"
    unfolding changes_analyze type_changes_of_loop [symmetric]
    by (simp add: identifyChanges_eq comp_def change_fields)
next
  assume d: "distinct (map name (variables m1))" "distinct (map name (variables m2))"
  show "type_changes m1 m2
        = [(TypeChanged, w2, Critical).
            w2 \<leftarrow> variables m2, w1 \<leftarrow> variables m1, name w1 = name w2 \<and> type w1 \<noteq> type w2]"
    unfolding type_changes_of_loop [symmetric]
    using type_change_lookup [OF d(1)]
    by (simp add: name_map_distinct d map_concat comp_def)
qed

theorem changes_of_analyze_witness:
  "map (\<lambda>c. (type_uc c, variable c, severity c)) (changes (analyze mapping_V1 mapping_retyped)) =
       [(CollisionChange, mock_var ''value'' ''uint128'' 1 0 16, Critical),
        (Removed, mock_var ''value'' ''uint256'' 1 0 32, Warning),
        (Added, mock_var ''value'' ''uint128'' 1 0 16, Safe),
        (TypeChanged, mock_var ''value'' ''uint128'' 1 0 16, Critical)]
   \<and> map (\<lambda>c. (type_uc c, variable c, severity c))
        (changes (analyze mapping_twice_old mapping_twice_new)) =
       [(Moved, mock_var ''a'' ''uint16'' 1 0 2, Critical),
        (Removed, mock_var ''a'' ''uint8'' 1 0 1, Warning),
        (TypeChanged, mock_var ''a'' ''uint16'' 1 0 2, Critical)]"
proof -
  have unique:
    "map (\<lambda>c. (CollisionChange, v2_c c, Critical)) (collisions (compare mapping_V1 mapping_retyped))
     @ map (\<lambda>v. (Moved, v, Critical)) (moved (compare mapping_V1 mapping_retyped))
     @ map (\<lambda>v. (Removed, v, Warning)) (removed (compare mapping_V1 mapping_retyped))
     @ map (\<lambda>v. (Added, v, Safe)) (added (compare mapping_V1 mapping_retyped))
     @ type_changes mapping_V1 mapping_retyped
     = [(CollisionChange, mock_var ''value'' ''uint128'' 1 0 16, Critical),
        (Removed, mock_var ''value'' ''uint256'' 1 0 32, Warning),
        (Added, mock_var ''value'' ''uint128'' 1 0 16, Safe),
        (TypeChanged, mock_var ''value'' ''uint128'' 1 0 16, Critical)]"
    by code_simp
  have twice:
    "map (\<lambda>c. (CollisionChange, v2_c c, Critical))
        (collisions (compare mapping_twice_old mapping_twice_new))
     @ map (\<lambda>v. (Moved, v, Critical)) (moved (compare mapping_twice_old mapping_twice_new))
     @ map (\<lambda>v. (Removed, v, Warning)) (removed (compare mapping_twice_old mapping_twice_new))
     @ map (\<lambda>v. (Added, v, Safe)) (added (compare mapping_twice_old mapping_twice_new))
     @ type_changes mapping_twice_old mapping_twice_new
     = [(Moved, mock_var ''a'' ''uint16'' 1 0 2, Critical),
        (Removed, mock_var ''a'' ''uint8'' 1 0 1, Warning),
        (TypeChanged, mock_var ''a'' ''uint16'' 1 0 2, Critical)]"
    by code_simp
  from changes_of_analyze [of mapping_V1 mapping_retyped]
    changes_of_analyze [of mapping_twice_old mapping_twice_new] unique twice
  show ?thesis
    by simp
qed

subsection \<open>Score and level\<close>

lemma score_assess:
  "score (assessCompatibility chs r) =
     max 0 (100 - 40 * count_severity Critical chs - 15 * count_severity Warning chs)"
  unfolding assessCompatibility_def Let_def count_severity_def
  by (simp only: UpgradeCompatibility.simps if_distrib [of score] if_cancel mult.commute)

lemma level_assess:
  "level (assessCompatibility chs r) =
     (if count_severity Critical chs > 0 then LevelCritical
      else if count_severity Warning chs > 2 then Unsafe
      else if count_severity Warning chs > 0 then Caution
      else LevelSafe)"
  unfolding assessCompatibility_def Let_def count_severity_def
  by (simp only: UpgradeCompatibility.simps if_distrib [of level])

lemma compatibility_analyze:
  "compatibility (analyze m1 m2) = assessCompatibility (changes (analyze m1 m2)) (compare m1 m2)"
  by (simp add: analyze_def Let_def)

lemma count_severity_nonneg: "0 \<le> count_severity sev chs"
  by (simp add: count_severity_def)

text \<open>
  C6. For every pair of mappings, the compatibility of \<open>analyze v1 v2\<close> has the score
  \<open>max 0 (100 - 40 * critical changes - 15 * warning changes)\<close>, which lies between 0 and
  100, and the level critical when there is a critical change, else unsafe when there
  are more than two warnings, else caution when there is a warning, else safe.
\<close>

theorem compatibility_score_level:
  "score (compatibility (analyze m1 m2)) =
      max 0 (100 - 40 * count_severity Critical (changes (analyze m1 m2))
                 - 15 * count_severity Warning (changes (analyze m1 m2)))
   \<and> 0 \<le> score (compatibility (analyze m1 m2))
   \<and> score (compatibility (analyze m1 m2)) \<le> 100
   \<and> level (compatibility (analyze m1 m2)) =
       (if count_severity Critical (changes (analyze m1 m2)) > 0 then LevelCritical
        else if count_severity Warning (changes (analyze m1 m2)) > 2 then Unsafe
        else if count_severity Warning (changes (analyze m1 m2)) > 0 then Caution
        else LevelSafe)"
proof -
  define c where "c = count_severity Critical (changes (analyze m1 m2))"
  define w where "w = count_severity Warning (changes (analyze m1 m2))"
  have nn: "0 \<le> c" "0 \<le> w"
    by (simp_all add: c_def w_def count_severity_nonneg)
  have sc: "score (compatibility (analyze m1 m2)) = max 0 (100 - 40 * c - 15 * w)"
    by (simp only: compatibility_analyze score_assess c_def w_def)
  have lv: "level (compatibility (analyze m1 m2)) =
       (if c > 0 then LevelCritical else if w > 2 then Unsafe
        else if w > 0 then Caution else LevelSafe)"
    by (simp only: compatibility_analyze level_assess c_def w_def)
  have "0 \<le> max 0 (100 - 40 * c - 15 * w)" "max 0 (100 - 40 * c - 15 * w) \<le> 100"
    using nn by simp_all
  with sc lv show ?thesis
    unfolding c_def w_def by simp
qed

theorem compatibility_score_level_witness:
  "count_severity Critical (changes (analyze mapping_V1 mapping_retyped)) = 2
   \<and> count_severity Warning (changes (analyze mapping_V1 mapping_retyped)) = 1
   \<and> score (compatibility (analyze mapping_V1 mapping_retyped)) = 5
   \<and> level (compatibility (analyze mapping_V1 mapping_retyped)) = LevelCritical"
proof -
  have c: "count_severity Critical (changes (analyze mapping_V1 mapping_retyped)) = 2"
    unfolding changes_analyze by code_simp
  have w: "count_severity Warning (changes (analyze mapping_V1 mapping_retyped)) = 1"
    unfolding changes_analyze by code_simp
  from compatibility_score_level [of mapping_V1 mapping_retyped] c w show ?thesis
    by simp
qed

subsection \<open>Storage growth\<close>

text \<open>
  Rounding at work. A tenth is no double, and \<open>2^53 + 1\<close> lies halfway between two.
  For the upgrade of \<open>flagContract\<close> the efficiencies are \<open>1 / 32\<close> and \<open>82 / 160\<close>; in
  doubles the second, times 100, falls just below \<open>51.25\<close>, so the change is reported as
  \<open>48.12\<close> where exact arithmetic would round \<open>48.125\<close> up to \<open>48.13\<close>.
\<close>

lemma to_double_examples:
  "to_double (1 / 10) = Finite (3602879701896397 / 36028797018963968)"
  "to_double (2 ^ 53 + 1) = Finite (2 ^ 53)"
  "to_double (2 ^ 53 + 3) = Finite (2 ^ 53 + 4)"
  by code_simp+

lemma storageGrowth_flagContract:
  "storageGrowth (analyze (calculateSlots flagContract) (calculateSlots flagContractV2)) =
     \<lparr> slotsAdded = 4, bytesWasted = Finite 47, efficiencyChange = to_double (4812 / 100) \<rparr>"
  by code_simp

lemma js_minus_NaN: "js_minus x NaN = NaN"
  by (cases x) simp_all

text \<open>
  C7, where the code departs from it. \<open>calculateStorageGrowth\<close> divides the used bytes
  by \<open>totalSlots * 32\<close> without a look at the divisor (\<open>calculatePackingEfficiency\<close> of
  the layout calculator returns 100 for \<open>totalSlots = 0\<close> before it divides). For an old
  mapping without variables and with \<open>totalSlots = 0\<close>, which is what \<open>calculateSlots\<close>
  returns for a contract without state variables, the quotient is \<open>0 / 0\<close>: nothing is
  raised, but \<open>efficiencyChange\<close> is \<open>NaN\<close>, whatever the new mapping.
\<close>

theorem efficiencyChange_empty:
  "variables m1 = [] \<Longrightarrow> totalSlots m1 = 0 \<Longrightarrow>
     efficiencyChange (storageGrowth (analyze m1 m2)) = NaN"
  by (simp add: analyze_def Let_def calculateStorageGrowth_def usedBytes_def js_minus_NaN)

theorem efficiencyChange_empty_witness:
  "variables (calculateSlots emptyContract) = []
   \<and> totalSlots (calculateSlots emptyContract) = 0
   \<and> efficiencyChange
        (storageGrowth (analyze (calculateSlots emptyContract) (calculateSlots emptyContract))) = NaN"
proof -
  have h1: "variables (calculateSlots emptyContract) = []"
    by (simp add: calculateSlots_def emptyContract_def place_all_def)
  have h2: "totalSlots (calculateSlots emptyContract) = 0"
    by (simp add: calculateSlots_def emptyContract_def place_all_def)
  from efficiencyChange_empty [OF h1 h2] h1 h2 show ?thesis
    by simp
qed

subsection \<open>Constants and immutables\<close>

lemma placed_place:
  "map (\<lambda>v. (name v, type v)) (placed (place st x)) =
     map (\<lambda>v. (name v, type v)) (placed st) @ [(name_sv x, typeName x)]"
  by (simp add: place_def Let_def)

lemma placed_foldl_place:
  "map (\<lambda>v. (name v, type v)) (placed (foldl place st xs)) =
     map (\<lambda>v. (name v, type v)) (placed st) @ map (\<lambda>d. (name_sv d, typeName d)) xs"
  by (induction xs arbitrary: st) (simp_all add: placed_place)

text \<open>
  C9, where the code departs from it. \<open>calculateSlots\<close> never reads \<open>isConstant\<close> or
  \<open>isImmutable\<close>: every declared variable, flagged or not, gets an entry of the mapping, in
  declaration order. In the contract below the constant \<open>MAX_SUPPLY\<close> takes slot 0 and
  pushes \<open>owner\<close> to slot 1.
\<close>

theorem every_declared_variable_placed:
  "map (\<lambda>v. (name v, type v)) (variables (calculateSlots c)) =
     map (\<lambda>d. (name_sv d, typeName d)) (stateVariables c)"
  by (simp add: variables_calculateSlots place_all_def placed_foldl_place)

theorem every_declared_variable_placed_witness:
  "isConstant (hd (stateVariables constantContract))
   \<and> map (\<lambda>v. (name v, type v)) (variables (calculateSlots constantContract)) =
       [(''MAX_SUPPLY'', ''uint256''), (''owner'', ''address'')]
   \<and> map (\<lambda>v. (name v, slot v, offset v, size_v v)) (variables (calculateSlots constantContract)) =
       [(''MAX_SUPPLY'', 0, Num 0, Num 32), (''owner'', 1, Num 0, Num 20)]"
proof -
  have flag: "isConstant (hd (stateVariables constantContract))"
    by (simp add: constantContract_def)
  have names: "map (\<lambda>d. (name_sv d, typeName d)) (stateVariables constantContract) =
      [(''MAX_SUPPLY'', ''uint256''), (''owner'', ''address'')]"
    by (simp add: constantContract_def declare_var_def)
  have places: "map (\<lambda>v. (name v, slot v, offset v, size_v v))
      (variables (calculateSlots constantContract)) =
      [(''MAX_SUPPLY'', 0, Num 0, Num 32), (''owner'', 1, Num 0, Num 20)]"
    by code_simp
  from every_declared_variable_placed [of constantContract] flag names places show ?thesis
    by simp
qed

end
